theory Spec2Isabelle
  imports Complex_Main "HOL-Library.Word" "HOL-Library.Char_ord" "HOL-Library.List_Lexorder"
begin

section \<open>JavaScript strings and numbers\<close>

text \<open>
  A JavaScript string is modelled as a HOL \<^typ>\<open>string\<close>. A HOL character has eight bits,
  which is exactly the range of the "binary strings" that \<^verbatim>\<open>btoa\<close> accepts and
  \<^verbatim>\<open>atob\<close> returns, and covers every literal of the source. An element of a
  \<^verbatim>\<open>Uint8Array\<close> is an 8-bit word.
\<close>

type_synonym byte = "8 word"

text \<open>\<^verbatim>\<open>s.slice(start, end)\<close> for non-negative integer arguments.\<close>

definition slice :: "'a list \<Rightarrow> nat \<Rightarrow> nat \<Rightarrow> 'a list" where
  "slice s start stop =
     (let len = length s; from = min start len; to = min stop len
      in take (to - from) (drop from s))"

text \<open>\<^verbatim>\<open>s.indexOf(c)\<close> and \<^verbatim>\<open>s.lastIndexOf(c)\<close> for a one-character needle;
  \<open>None\<close> stands for the result \<^verbatim>\<open>-1\<close>.\<close>

fun indexOf :: "string \<Rightarrow> char \<Rightarrow> nat option" where
  "indexOf [] c = None"
| "indexOf (x # xs) c = (if x = c then Some 0 else map_option Suc (indexOf xs c))"

definition lastIndexOf :: "string \<Rightarrow> char \<Rightarrow> nat option" where
  "lastIndexOf s c =
     (case indexOf (rev s) c of None \<Rightarrow> None | Some i \<Rightarrow> Some (length s - 1 - i))"

text \<open>\<^verbatim>\<open>String.fromCharCode(b)\<close> on a byte, and \<^verbatim>\<open>s.charCodeAt(i)\<close> stored
  into a \<^verbatim>\<open>Uint8Array\<close>.\<close>

definition fromCharCode :: "byte \<Rightarrow> char" where
  "fromCharCode b = char_of (unat b)"

definition charCodeAt :: "char \<Rightarrow> byte" where
  "charCodeAt c = of_nat (of_char c)"

text \<open>\<^verbatim>\<open>i.toString()\<close> for a non-negative integer: its decimal digits.\<close>

definition digit :: "nat \<Rightarrow> char" where
  "digit d = char_of (48 + d)"

function toString :: "nat \<Rightarrow> string" where
  "toString n = (if n < 10 then [digit n] else toString (n div 10) @ [digit (n mod 10)])"
  by pat_completeness auto
termination
  by (relation "measure (\<lambda>n. n)") auto

declare toString.simps [simp del]

text \<open>\<^verbatim>\<open>s.padStart(n, c)\<close> with a one-character filler.\<close>

definition padStart :: "string \<Rightarrow> nat \<Rightarrow> char \<Rightarrow> string" where
  "padStart s n c = replicate (n - length s) c @ s"

text \<open>\<^verbatim>\<open>s.startsWith(p)\<close> and \<^verbatim>\<open>s.includes(p)\<close>.\<close>

definition startsWith :: "string \<Rightarrow> string \<Rightarrow> bool" where
  "startsWith s p = (take (length p) s = p)"

fun includes_str :: "string \<Rightarrow> string \<Rightarrow> bool" where
  "includes_str [] p = (p = [])"
| "includes_str (x # xs) p = (startsWith (x # xs) p \<or> includes_str xs p)"

text \<open>\<^verbatim>\<open>s.trim()\<close> removes white space and line terminators at both ends; these are
  the ones among the 8-bit characters.\<close>

definition js_whitespace :: "char \<Rightarrow> bool" where
  "js_whitespace c =
     (c \<in> set [CHR 0x09, CHR 0x0A, CHR 0x0B, CHR 0x0C, CHR 0x0D, CHR 0x20, CHR 0xA0])"

definition trim :: "string \<Rightarrow> string" where
  "trim s = rev (dropWhile js_whitespace (rev (dropWhile js_whitespace s)))"

text \<open>\<^verbatim>\<open>parts.join(sep)\<close>\<close>

fun join :: "string \<Rightarrow> string list \<Rightarrow> string" where
  "join sep [] = []"
| "join sep [x] = x"
| "join sep (x # y # ys) = x @ sep @ join sep (y # ys)"

text \<open>Truthiness of an optional string: \<^verbatim>\<open>undefined\<close>, \<^verbatim>\<open>null\<close> and the empty
  string are falsy. \<^verbatim>\<open>a || b\<close> on optional strings.\<close>

definition truthy_str :: "string option \<Rightarrow> bool" where
  "truthy_str a = (case a of None \<Rightarrow> False | Some s \<Rightarrow> s \<noteq> [])"

definition or_str :: "string option \<Rightarrow> string option \<Rightarrow> string option" where
  "or_str a b = (if truthy_str a then a else b)"

definition or_default :: "string option \<Rightarrow> string \<Rightarrow> string" where
  "or_default a d = (case a of None \<Rightarrow> d | Some s \<Rightarrow> if s \<noteq> [] then s else d)"

section \<open>Base64: \<^verbatim>\<open>btoa\<close> and \<^verbatim>\<open>atob\<close>\<close>

definition b64_alphabet :: string where
  "b64_alphabet = ''ABCDEFGHIJKLMNOPQRSTUVWXYZabcdefghijklmnopqrstuvwxyz0123456789+/''"

definition b64_char :: "nat \<Rightarrow> char" where
  "b64_char i = b64_alphabet ! (i mod 64)"

definition b64_index :: "char \<Rightarrow> nat option" where
  "b64_index c = indexOf b64_alphabet c"

text \<open>\<^verbatim>\<open>btoa\<close>: three bytes (24 bits) become four characters of six bits each;
  a last group of one or two bytes is filled with zero bits and padded with
  \<^verbatim>\<open>=\<close>.\<close>

fun btoa :: "string \<Rightarrow> string" where
  "btoa [] = []"
| "btoa [a] =
     (let x = of_char a
      in [b64_char (x div 4), b64_char (x mod 4 * 16), CHR ''='', CHR ''=''])"
| "btoa [a, b] =
     (let x = of_char a; y = of_char b
      in [b64_char (x div 4), b64_char (x mod 4 * 16 + y div 16), b64_char (y mod 16 * 4),
          CHR ''=''])"
| "btoa (a # b # c # rest) =
     (let x = of_char a; y = of_char b; z = of_char c
      in [b64_char (x div 4), b64_char (x mod 4 * 16 + y div 16),
          b64_char (y mod 16 * 4 + z div 64), b64_char (z mod 64)] @ btoa rest)"

text \<open>\<^verbatim>\<open>atob\<close> is the forgiving base64 decoder of the HTML standard: ASCII whitespace
  is removed, one or two trailing \<^verbatim>\<open>=\<close> are removed when the length is a multiple
  of four, a remaining length of 1 modulo 4 or a character outside the alphabet is an
  error (\<open>None\<close>, the \<^verbatim>\<open>InvalidCharacterError\<close>), and the 6-bit groups are
  reassembled into bytes, dropping the 4 or 2 spare bits of a last short group.\<close>

definition ascii_whitespace :: "char \<Rightarrow> bool" where
  "ascii_whitespace c = (c \<in> set [CHR 0x09, CHR 0x0A, CHR 0x0C, CHR 0x0D, CHR 0x20])"

definition strip_padding :: "string \<Rightarrow> string" where
  "strip_padding s =
     (if length s mod 4 = 0 then
        (case rev s of
           x # y # r \<Rightarrow> if x = CHR ''='' then (if y = CHR ''='' then rev r else rev (y # r)) else s
         | _ \<Rightarrow> s)
      else s)"

fun sextets_to_bytes :: "nat list \<Rightarrow> string" where
  "sextets_to_bytes (s0 # s1 # s2 # s3 # rest) =
     [char_of (s0 * 4 + s1 div 16), char_of (s1 mod 16 * 16 + s2 div 4),
      char_of (s2 mod 4 * 64 + s3)] @ sextets_to_bytes rest"
| "sextets_to_bytes [s0, s1, s2] =
     [char_of (s0 * 4 + s1 div 16), char_of (s1 mod 16 * 16 + s2 div 4)]"
| "sextets_to_bytes [s0, s1] = [char_of (s0 * 4 + s1 div 16)]"
| "sextets_to_bytes _ = []"

fun those_indices :: "string \<Rightarrow> nat list option" where
  "those_indices [] = Some []"
| "those_indices (c # cs) =
     (case b64_index c of
        None \<Rightarrow> None
      | Some i \<Rightarrow> (case those_indices cs of None \<Rightarrow> None | Some is \<Rightarrow> Some (i # is)))"

definition atob :: "string \<Rightarrow> string option" where
  "atob s =
     (let d = strip_padding (filter (\<lambda>c. \<not> ascii_whitespace c) s)
      in if length d mod 4 = 1 then None
         else (case those_indices d of None \<Rightarrow> None | Some is \<Rightarrow> Some (sextets_to_bytes is)))"

section \<open>Chunked upload and download (\<^verbatim>\<open>ProjectViewer.tsx\<close>)\<close>

text \<open>\<^verbatim>\<open>const CHUNK_SIZE = 500_000\<close>\<close>

definition CHUNK_SIZE :: nat where
  "CHUNK_SIZE = 500000"

text \<open>\<^verbatim>\<open>Math.ceil(base64.length / CHUNK_SIZE)\<close>. Both operands are string lengths,
  far below \<open>2 ^ 53\<close>, where the floating-point quotient rounds to the same ceiling as
  the exact one.\<close>

definition numChunks_of :: "nat \<Rightarrow> nat \<Rightarrow> nat" where
  "numChunks_of len k = nat \<lceil>real len / real k\<rceil>"

text \<open>The body of the upload loop for index \<open>i\<close>:
  \<^verbatim>\<open>base64.slice(i * CHUNK_SIZE, Math.min(base64.length, i * CHUNK_SIZE + CHUNK_SIZE))\<close>.\<close>

definition chunk_at :: "nat \<Rightarrow> string \<Rightarrow> nat \<Rightarrow> string" where
  "chunk_at k base64 i =
     (let start = i * k; stop = min (length base64) (start + k)
      in slice base64 start stop)"

text \<open>The file's bytes as the binary string the loop over \<^verbatim>\<open>bytes\<close> builds, and
  its base64 text.\<close>

definition binary_of :: "byte list \<Rightarrow> string" where
  "binary_of bytes = map fromCharCode bytes"

definition base64_of :: "byte list \<Rightarrow> string" where
  "base64_of bytes = btoa (binary_of bytes)"

text \<open>A chunk document \<^verbatim>\<open>{ index: i, data: chunk }\<close>.\<close>

record chunk_doc =
  index :: nat
  data :: string

text \<open>The chunk documents one upload writes, in the order it writes them, for a chunk
  size \<open>k\<close>.\<close>

definition encode_chunks :: "nat \<Rightarrow> byte list \<Rightarrow> chunk_doc list" where
  "encode_chunks k bytes =
     (let base64 = base64_of bytes; numChunks = numChunks_of (length base64) k
      in map (\<lambda>i. \<lparr>index = i, data = chunk_at k base64 i\<rparr>) [0..<numChunks])"

text \<open>What \<^verbatim>\<open>selectPdf\<close> makes of a chunk listing: the listing is ordered by the
  \<^verbatim>\<open>index\<close> field, the non-empty \<^verbatim>\<open>data\<close> fields are joined and decoded.
  With no part at all the viewer is given no document (\<^verbatim>\<open>setSelectedPdfUrl(null)\<close>);
  a text that \<^verbatim>\<open>atob\<close> rejects ends in the handler's \<^verbatim>\<open>catch\<close>.\<close>

datatype load_result = NoDocument | Loaded "byte list" | LoadError

definition decode_chunks :: "chunk_doc list \<Rightarrow> load_result" where
  "decode_chunks listing =
     (let parts = filter (\<lambda>d. d \<noteq> []) (map data (sort_key index listing))
      in if length parts = 0 then NoDocument
         else (case atob (concat parts) of
                 None \<Rightarrow> LoadError
               | Some byteCharacters \<Rightarrow> Loaded (map charCodeAt byteCharacters)))"

section \<open>The Firestore backend\<close>

text \<open>
  Documents live at paths; a path alternates collection names and document ids, as in
  \<^verbatim>\<open>doc(db, "projects", projectId, "pdfs", pdfId, "chunks", chunkId)\<close>. The fields of
  the three kinds of document below a project are those the source writes.
\<close>

type_synonym path = "string list"

text \<open>The PDF document written by \<^verbatim>\<open>addDoc\<close>: \<^verbatim>\<open>name\<close>, \<^verbatim>\<open>ownerUid\<close>,
  \<^verbatim>\<open>numChunks\<close>, \<^verbatim>\<open>size\<close>, \<^verbatim>\<open>mimeType\<close>; \<^verbatim>\<open>createdAt\<close> is the server's
  time stamp, filled in by the backend.\<close>

record pdf_meta =
  pdf_name :: string
  ownerUid :: "string option"
  numChunks :: nat
  pdf_size :: nat
  mimeType :: string

datatype 'h fs_doc = PdfDoc pdf_meta | ChunkDoc chunk_doc | AnnotationsDoc "'h list"

datatype 'h fs_op =
    AddDoc path "'h fs_doc"
  | SetDoc path "'h fs_doc"
  | DeleteDoc path
  | GetDocs path "string option"

type_synonym 'h firestore = "(path \<times> 'h fs_doc) list"

text \<open>The effect of a request that succeeds. \<^verbatim>\<open>addDoc\<close> stores the document under
  the id the backend generates (\<open>newId\<close>); \<^verbatim>\<open>setDoc\<close> creates or overwrites;
  \<^verbatim>\<open>deleteDoc\<close> of a document that does not exist succeeds and changes nothing.\<close>

fun upsert :: "path \<Rightarrow> 'h fs_doc \<Rightarrow> 'h firestore \<Rightarrow> 'h firestore" where
  "upsert p d [] = [(p, d)]"
| "upsert p d ((q, e) # rest) = (if q = p then (p, d) # rest else (q, e) # upsert p d rest)"

fun apply_op :: "string \<Rightarrow> 'h fs_op \<Rightarrow> 'h firestore \<Rightarrow> 'h firestore" where
  "apply_op newId (AddDoc coll d) store = upsert (coll @ [newId]) d store"
| "apply_op newId (SetDoc p d) store = upsert p d store"
| "apply_op newId (DeleteDoc p) store = filter (\<lambda>(q, e). q \<noteq> p) store"
| "apply_op newId (GetDocs coll orderBy) store = store"

text \<open>A backend: the stored documents, which requests it lets succeed (a request that
  does not succeed rejects its promise with an \<^verbatim>\<open>Error\<close> carrying a message), and the
  id it gives the next added document. \<^verbatim>\<open>GetDocs\<close> carries the \<^verbatim>\<open>orderBy\<close> field
  of the query, if any.\<close>

record 'h backend =
  store :: "'h firestore"
  succeeds :: "'h fs_op \<Rightarrow> bool"
  message_of :: "'h fs_op \<Rightarrow> string"
  newId :: string

text \<open>The documents of a collection, as \<^verbatim>\<open>getDocs(collection(...))\<close> lists them: the
  documents one level below the collection path, ordered by document id.\<close>

definition list_docs :: "'h firestore \<Rightarrow> path \<Rightarrow> (string \<times> 'h fs_doc) list" where
  "list_docs st coll =
     sort_key fst
       (map (\<lambda>(p, d). (last p, d))
          (filter (\<lambda>(p, d). p \<noteq> [] \<and> butlast p = coll) st))"

text \<open>The chunk documents of a listing (the \<^verbatim>\<open>d.data()\<close> of each).\<close>

fun chunk_docs :: "(string \<times> 'h fs_doc) list \<Rightarrow> chunk_doc list" where
  "chunk_docs [] = []"
| "chunk_docs ((i, ChunkDoc c) # rest) = c # chunk_docs rest"
| "chunk_docs (_ # rest) = chunk_docs rest"

definition pdfs_path :: "string \<Rightarrow> path" where
  "pdfs_path projectId = [''projects'', projectId, ''pdfs'']"

definition pdf_path :: "string \<Rightarrow> string \<Rightarrow> path" where
  "pdf_path projectId pdfId = [''projects'', projectId, ''pdfs'', pdfId]"

definition chunks_path :: "string \<Rightarrow> string \<Rightarrow> path" where
  "chunks_path projectId pdfId = [''projects'', projectId, ''pdfs'', pdfId, ''chunks'']"

definition chunk_path :: "string \<Rightarrow> string \<Rightarrow> string \<Rightarrow> path" where
  "chunk_path projectId pdfId chunkId = [''projects'', projectId, ''pdfs'', pdfId, ''chunks'', chunkId]"

definition annotations_path :: "string \<Rightarrow> string \<Rightarrow> path" where
  "annotations_path projectId pdfId =
     [''projects'', projectId, ''pdfs'', pdfId, ''annotations'', ''default'']"

section \<open>The handlers of \<^verbatim>\<open>ProjectViewer.tsx\<close>\<close>

text \<open>\<^verbatim>\<open>type PdfItem\<close> (without the time stamp), the selected file, and the component
  state. An object URL is modelled by the blob it names.\<close>

record pdf_item =
  item_id :: string
  item_name :: string
  item_numChunks :: "nat option"
  item_size :: "nat option"
  item_mimeType :: "string option"

record picked_file =
  file_name :: string
  file_type :: string
  file_bytes :: "byte list"

record blob =
  blob_bytes :: "byte list"
  blob_type :: string

record viewer_state =
  pdfs :: "pdf_item list"
  selectedPdfId :: "string option"
  selectedPdfUrl :: "blob option"
  error :: "string option"
  loading :: bool

text \<open>What one run of a handler did: the new component state, the requests it sent to
  the backend in the order it sent them, the backend afterwards, and the message its
  \<^verbatim>\<open>catch\<close> block received, if the block was entered.\<close>

record 'h effect =
  ui :: viewer_state
  requests :: "'h fs_op list"
  db_after :: "'h backend option"
  caught :: "string option"

text \<open>The message of the exception \<^verbatim>\<open>atob\<close> throws (the text differs between
  browsers).\<close>

definition atob_error_message :: string where
  "atob_error_message = ''The string to be decoded is not correctly encoded.''"

text \<open>\<^verbatim>\<open>selectPdf(item)\<close>, the download.\<close>

definition selectPdf :: "'h backend option \<Rightarrow> string \<Rightarrow> pdf_item \<Rightarrow> viewer_state \<Rightarrow> 'h effect" where
  "selectPdf db projectId item st =
     (case db of
        None \<Rightarrow> \<lparr>ui = st, requests = [], db_after = db, caught = None\<rparr>
      | Some b \<Rightarrow>
          (let st1 = st\<lparr>selectedPdfId := Some (item_id item), error := None\<rparr>;
               q = GetDocs (chunks_path projectId (item_id item)) (Some ''index'')
           in if \<not> succeeds b q then
                \<lparr>ui = st1\<lparr>error := Some (message_of b q)\<rparr>, requests = [q], db_after = db,
                 caught = Some (message_of b q)\<rparr>
              else
                (case decode_chunks
                        (chunk_docs (list_docs (store b) (chunks_path projectId (item_id item)))) of
                   NoDocument \<Rightarrow>
                     \<lparr>ui = st1\<lparr>selectedPdfUrl := None\<rparr>, requests = [q], db_after = db,
                      caught = None\<rparr>
                 | Loaded byteArray \<Rightarrow>
                     \<lparr>ui = st1\<lparr>selectedPdfUrl :=
                             Some \<lparr>blob_bytes = byteArray,
                                   blob_type = or_default (item_mimeType item) ''application/pdf''\<rparr>\<rparr>,
                      requests = [q], db_after = db, caught = None\<rparr>
                 | LoadError \<Rightarrow>
                     \<lparr>ui = st1\<lparr>error := Some atob_error_message\<rparr>, requests = [q],
                      db_after = db, caught = Some atob_error_message\<rparr>)))"

text \<open>The key of chunk \<open>i\<close>: \<^verbatim>\<open>i.toString().padStart(6, "0")\<close>.\<close>

definition chunkId :: "nat \<Rightarrow> string" where
  "chunkId i = padStart (toString i) 6 (CHR ''0'')"

text \<open>The upload loop: one \<^verbatim>\<open>await setDoc(...)\<close> per chunk, in index order; the
  first write that fails leaves the loop through the exception.\<close>

fun upload_chunks ::
  "'h backend \<Rightarrow> string \<Rightarrow> string \<Rightarrow> chunk_doc list \<Rightarrow> 'h backend \<times> 'h fs_op list \<times> bool" where
  "upload_chunks b projectId pdfId [] = (b, [], True)"
| "upload_chunks b projectId pdfId (c # cs) =
     (let w = SetDoc (chunk_path projectId pdfId (chunkId (index c))) (ChunkDoc c)
      in if succeeds b w then
           (case upload_chunks (b\<lparr>store := apply_op (newId b) w (store b)\<rparr>) projectId pdfId cs of
              (b', ws, ok) \<Rightarrow> (b', w # ws, ok))
         else (b, [w], False))"

text \<open>\<^verbatim>\<open>handleAddPdf(e)\<close>, the upload. \<open>uid\<close> is \<^verbatim>\<open>auth?.currentUser?.uid\<close>.\<close>

definition handleAddPdf ::
  "bool \<Rightarrow> 'h backend option \<Rightarrow> string option \<Rightarrow> string \<Rightarrow> picked_file option \<Rightarrow> viewer_state \<Rightarrow> 'h effect" where
  "handleAddPdf isFirebaseConfigured db uid projectId picked st =
     (case picked of
        None \<Rightarrow> \<lparr>ui = st, requests = [], db_after = db, caught = None\<rparr>
      | Some f \<Rightarrow>
          if file_type f = [] \<or> \<not> includes_str (file_type f) ''pdf'' then
            \<lparr>ui = st\<lparr>error := Some ''Please select a PDF file''\<rparr>, requests = [],
             db_after = db, caught = None\<rparr>
          else
            (case (if isFirebaseConfigured then db else None) of
               None \<Rightarrow>
                 \<lparr>ui = st\<lparr>error := Some ''Firebase is not configured''\<rparr>, requests = [],
                  db_after = db, caught = None\<rparr>
             | Some b \<Rightarrow>
                 (let st1 = st\<lparr>error := None, loading := True\<rparr>;
                      base64 = base64_of (file_bytes f);
                      n = numChunks_of (length base64) CHUNK_SIZE;
                      mime = (if file_type f \<noteq> [] then file_type f else ''application/pdf'');
                      a = AddDoc (pdfs_path projectId)
                            (PdfDoc \<lparr>pdf_name = file_name f, ownerUid = uid, numChunks = n,
                                    pdf_size = length (file_bytes f), mimeType = mime\<rparr>)
                  in if \<not> succeeds b a then
                       \<lparr>ui = st1\<lparr>error := Some (message_of b a), loading := False\<rparr>,
                        requests = [a], db_after = db, caught = Some (message_of b a)\<rparr>
                     else
                       (case upload_chunks (b\<lparr>store := apply_op (newId b) a (store b)\<rparr>)
                               projectId (newId b) (encode_chunks CHUNK_SIZE (file_bytes f)) of
                          (b2, ws, ok) \<Rightarrow>
                            if \<not> ok then
                              \<lparr>ui = st1\<lparr>error := Some (message_of b (last ws)), loading := False\<rparr>,
                               requests = a # ws, db_after = Some b2,
                               caught = Some (message_of b (last ws))\<rparr>
                            else
                              (let newItem = \<lparr>item_id = newId b, item_name = file_name f,
                                              item_numChunks = Some n,
                                              item_size = Some (length (file_bytes f)),
                                              item_mimeType = Some mime\<rparr>;
                                   sel = selectPdf (Some b2) projectId newItem
                                           (st1\<lparr>pdfs := newItem # pdfs st1\<rparr>)
                               in \<lparr>ui = (ui sel)\<lparr>loading := False\<rparr>,
                                   requests = a # ws @ requests sel, db_after = Some b2,
                                   caught = None\<rparr>)))))"

text \<open>\<^verbatim>\<open>handleDeleteSelectedPdf()\<close>. \<open>confirmed\<close> is the answer to
  \<^verbatim>\<open>window.confirm\<close>. The chunk deletes and the annotation delete are started
  together and awaited with \<^verbatim>\<open>Promise.allSettled\<close>, which never rejects; the delete
  of the PDF document follows and is awaited on its own.\<close>

definition handleDeleteSelectedPdf ::
  "'h backend option \<Rightarrow> string \<Rightarrow> bool \<Rightarrow> viewer_state \<Rightarrow> 'h effect" where
  "handleDeleteSelectedPdf db projectId confirmed st =
     (case db of
        None \<Rightarrow> \<lparr>ui = st, requests = [], db_after = db, caught = None\<rparr>
      | Some b \<Rightarrow>
          (case selectedPdfId st of
             None \<Rightarrow> \<lparr>ui = st, requests = [], db_after = db, caught = None\<rparr>
           | Some pdfId \<Rightarrow>
               if pdfId = [] \<or> \<not> confirmed then
                 \<lparr>ui = st, requests = [], db_after = db, caught = None\<rparr>
               else
                 (let q = GetDocs (chunks_path projectId pdfId) None
                  in if \<not> succeeds b q then
                       \<lparr>ui = st\<lparr>error := Some (message_of b q)\<rparr>, requests = [q],
                        db_after = db, caught = Some (message_of b q)\<rparr>
                     else
                       (let deletions =
                              map (\<lambda>(i, d). DeleteDoc (chunk_path projectId pdfId i))
                                (list_docs (store b) (chunks_path projectId pdfId))
                              @ [DeleteDoc (annotations_path projectId pdfId)];
                            b1 = b\<lparr>store := foldl (\<lambda>s d. apply_op (newId b) d s) (store b)
                                               (filter (succeeds b) deletions)\<rparr>;
                            final = DeleteDoc (pdf_path projectId pdfId)
                        in if \<not> succeeds b final then
                             \<lparr>ui = st\<lparr>error := Some (message_of b final)\<rparr>,
                              requests = q # deletions @ [final], db_after = Some b1,
                              caught = Some (message_of b final)\<rparr>
                           else
                             \<lparr>ui = st\<lparr>pdfs := filter (\<lambda>p. item_id p \<noteq> pdfId) (pdfs st),
                                      selectedPdfId := None, selectedPdfUrl := None\<rparr>,
                              requests = q # deletions @ [final],
                              db_after = Some (b1\<lparr>store := apply_op (newId b) final (store b1)\<rparr>),
                              caught = None\<rparr>))))"

section \<open>Annotations (\<^verbatim>\<open>PdfEditor.tsx\<close>)\<close>

text \<open>\<^verbatim>\<open>type CommentReply\<close>, \<^verbatim>\<open>type HighlightMeta\<close> and \<^verbatim>\<open>type RichHighlight\<close>
  (its fields \<^verbatim>\<open>id\<close>, \<^verbatim>\<open>position\<close>, \<^verbatim>\<open>content\<close>, \<^verbatim>\<open>comment\<close> carry the prefix
  \<open>hl_\<close>). Severity and category are strings at run time. The position and the content of a
  highlight belong to the highlighter library and are only passed along, so their types
  are left open.\<close>

record comment_reply =
  reply_id :: string
  reply_text :: string
  authorUid :: "string option"
  createdAt :: nat

record highlight_meta =
  meta_severity :: string
  meta_category :: string
  replies :: "comment_reply list"

record comment_body =
  comment_text :: string
  emoji :: string

record ('p, 'c) rich_highlight =
  hl_id :: string
  hl_position :: 'p
  hl_content :: 'c
  hl_comment :: comment_body
  meta :: "highlight_meta option"

text \<open>What the component reads from outside: \<^verbatim>\<open>String(Math.random())\<close>,
  \<^verbatim>\<open>Date.now()\<close> and \<^verbatim>\<open>auth?.currentUser?.uid\<close>.\<close>

record editor_env =
  Math_random :: string
  Date_now :: nat
  currentUid :: "string option"

record ('p, 'c) editor_state =
  highlights :: "('p, 'c) rich_highlight list"
  replyDrafts :: "string \<rightharpoonup> string"

definition createReply :: "editor_env \<Rightarrow> string \<Rightarrow> comment_reply" where
  "createReply env txt =
     \<lparr>reply_id = slice (Math_random env) 2 (length (Math_random env)), reply_text = txt,
      authorUid = currentUid env, createdAt = Date_now env\<rparr>"

text \<open>The literal \<^verbatim>\<open>{ severity: "medium", category: "general", replies: [] }\<close> that
  stands in for a missing \<^verbatim>\<open>meta\<close>.\<close>

definition default_meta :: highlight_meta where
  "default_meta = \<lparr>meta_severity = ''medium'', meta_category = ''general'', replies = []\<rparr>"

text \<open>\<^verbatim>\<open>persistHighlights(next)\<close>. \<^verbatim>\<open>isFirebaseConfigured\<close> and \<^verbatim>\<open>db\<close> are the
  exports of \<^verbatim>\<open>@/firebase\<close>; \<^verbatim>\<open>annotationDocRef\<close> is \<^verbatim>\<open>null\<close> exactly when
  \<^verbatim>\<open>db\<close> is missing. Behind the guard
  \<^verbatim>\<open>if (!isFirebaseConfigured || !db || !annotationDocRef) return\<close> there is one
  \<^verbatim>\<open>setDoc\<close> of the whole list; a failure is logged and swallowed.\<close>

definition persistHighlights ::
  "bool \<Rightarrow> ('p, 'c) rich_highlight backend option \<Rightarrow> string \<Rightarrow> string
     \<Rightarrow> ('p, 'c) rich_highlight list
     \<Rightarrow> ('p, 'c) rich_highlight fs_op list \<times> ('p, 'c) rich_highlight backend option" where
  "persistHighlights isFirebaseConfigured db projectId pdfId next =
     (if \<not> isFirebaseConfigured then ([], db)
      else
        (case db of
           None \<Rightarrow> ([], db)
         | Some b \<Rightarrow>
             (let w = SetDoc (annotations_path projectId pdfId) (AnnotationsDoc next)
              in if succeeds b w then ([w], Some (b\<lparr>store := apply_op (newId b) w (store b)\<rparr>))
                 else ([w], db))))"

text \<open>The state update of the Reply button: the function given to
  \<^verbatim>\<open>setHighlights\<close>.\<close>

definition appendReply ::
  "comment_reply \<Rightarrow> string \<Rightarrow> ('p, 'c) rich_highlight list \<Rightarrow> ('p, 'c) rich_highlight list" where
  "appendReply reply highlightId prev =
     map (\<lambda>h. if hl_id h \<noteq> highlightId then h
              else (let existing = (case meta h of None \<Rightarrow> default_meta | Some m \<Rightarrow> m)
                    in h\<lparr>meta := Some (existing\<lparr>replies := reply # replies existing\<rparr>)\<rparr>))
       prev"

text \<open>The \<^verbatim>\<open>onClick\<close> handler of the Reply button of highlight \<open>highlightId\<close>. The
  result is the new component state, the requests sent and the backend afterwards.\<close>

definition reply_onClick ::
  "editor_env \<Rightarrow> bool \<Rightarrow> ('p, 'c) rich_highlight backend option \<Rightarrow> string \<Rightarrow> string
     \<Rightarrow> string \<Rightarrow> ('p, 'c) editor_state
     \<Rightarrow> ('p, 'c) editor_state \<times> ('p, 'c) rich_highlight fs_op list
         \<times> ('p, 'c) rich_highlight backend option" where
  "reply_onClick env isFirebaseConfigured db projectId pdfId highlightId st =
     (let val = trim (case replyDrafts st highlightId of None \<Rightarrow> [] | Some d \<Rightarrow> d)
      in if val = [] then (st, [], db)
         else (let reply = createReply env val;
                   updated = appendReply reply highlightId (highlights st);
                   (ws, db') = persistHighlights isFirebaseConfigured db projectId pdfId updated
               in (st\<lparr>highlights := updated,
                      replyDrafts := (replyDrafts st)(highlightId := None)\<rparr>, ws, db')))"

text \<open>The other three mutations: \<^verbatim>\<open>addHighlightWithMeta\<close>, \<^verbatim>\<open>updateHighlight\<close>,
  \<^verbatim>\<open>removeHighlight\<close> (their state updates; each is persisted as above).\<close>

definition addHighlightWithMeta ::
  "editor_env \<Rightarrow> 'p \<Rightarrow> 'c \<Rightarrow> string \<Rightarrow> highlight_meta \<Rightarrow> ('p, 'c) rich_highlight list
     \<Rightarrow> ('p, 'c) rich_highlight list" where
  "addHighlightWithMeta env pos cont commentText m prev =
     \<lparr>hl_id = slice (Math_random env) 2 (length (Math_random env)), hl_position = pos,
      hl_content = cont, hl_comment = \<lparr>comment_text = commentText, emoji = []\<rparr>,
      meta = Some m\<rparr>
     # prev"

definition updateHighlight ::
  "string \<Rightarrow> 'p \<Rightarrow> 'c \<Rightarrow> ('p, 'c) rich_highlight list \<Rightarrow> ('p, 'c) rich_highlight list" where
  "updateHighlight i pos cont prev =
     map (\<lambda>h. if hl_id h = i then h\<lparr>hl_position := pos, hl_content := cont\<rparr> else h) prev"

definition removeHighlight ::
  "string \<Rightarrow> ('p, 'c) rich_highlight list \<Rightarrow> ('p, 'c) rich_highlight list" where
  "removeHighlight i prev = filter (\<lambda>h. hl_id h \<noteq> i) prev"

section \<open>The suggestion client (\<^verbatim>\<open>ai.ts\<close>)\<close>

subsection \<open>Values read from model output\<close>

text \<open>What \<^verbatim>\<open>JSON.parse\<close> returns. The casts of the source
  (\<^verbatim>\<open>as Partial<CommentSuggestion>\<close>, \<^verbatim>\<open>as Severity\<close>) check nothing at run time, so
  a field of the parsed object can hold any JSON value.\<close>

datatype json =
    JNull
  | JBool bool
  | JNumber real
  | JString string
  | JArray "json list"
  | JObject "(string \<times> json) list"

datatype js_error = ApiError string | TypeError | SyntaxError

text \<open>Truthiness, the property read \<^verbatim>\<open>v.k\<close> (\<open>None\<close> is \<^verbatim>\<open>undefined\<close>; reading a
  property of \<^verbatim>\<open>null\<close> throws), and \<^verbatim>\<open>a || d\<close>.\<close>

fun truthy :: "json \<Rightarrow> bool" where
  "truthy JNull = False"
| "truthy (JBool b) = b"
| "truthy (JNumber r) = (r \<noteq> 0)"
| "truthy (JString s) = (s \<noteq> [])"
| "truthy (JArray xs) = True"
| "truthy (JObject kvs) = True"

fun get_prop :: "json \<Rightarrow> string \<Rightarrow> js_error + json option" where
  "get_prop JNull k = Inl TypeError"
| "get_prop (JObject kvs) k = Inr (map_of kvs k)"
| "get_prop v k = Inr None"

definition or_json :: "json option \<Rightarrow> json \<Rightarrow> json" where
  "or_json a d = (case a of None \<Rightarrow> d | Some v \<Rightarrow> if truthy v then v else d)"

text \<open>\<^verbatim>\<open>type CommentSuggestion\<close>, with the values its fields hold at run time.\<close>

record comment_suggestion =
  suggestion_text :: json
  severity :: json
  category :: json



subsection \<open>Response shapes and \<^verbatim>\<open>extractOutputText\<close>\<close>

text \<open>\<^verbatim>\<open>type ContentNode\<close> and \<^verbatim>\<open>type ResponsesLike\<close>; an absent optional field is
  \<open>None\<close>. The fields \<^verbatim>\<open>output\<close> and \<^verbatim>\<open>outputs\<close> are \<open>resp_output\<close> and
  \<open>resp_outputs\<close> here, \<^verbatim>\<open>text\<close> and \<^verbatim>\<open>value\<close> are \<open>node_text\<close> and \<open>node_value\<close>.\<close>

datatype text_node = TextString string | TextObject "string option"

record content_node =
  node_text :: "text_node option"
  node_content :: "string option"
  node_value :: "string option"

record output_item =
  item_content :: "content_node list option"

record chat_msg =
  msg_content :: "string option"

record choice =
  message :: "chat_msg option"

record responses_like =
  output_text :: "string option"
  resp_output :: "output_item list option"
  resp_outputs :: "output_item list option"
  choices :: "choice list option"

text \<open>\<^verbatim>\<open>typeof x === "string" && x.length > 0\<close>\<close>

definition nonempty :: "string option \<Rightarrow> string option" where
  "nonempty a = (case a of None \<Rightarrow> None | Some s \<Rightarrow> if s \<noteq> [] then Some s else None)"

definition node_string :: "content_node \<Rightarrow> string option" where
  "node_string c =
     (case nonempty (case node_text c of Some (TextString s) \<Rightarrow> Some s | _ \<Rightarrow> None) of
        Some s \<Rightarrow> Some s
      | None \<Rightarrow>
          (case nonempty (case node_text c of Some (TextObject v) \<Rightarrow> v | _ \<Rightarrow> None) of
             Some s \<Rightarrow> Some s
           | None \<Rightarrow>
               nonempty (case node_content c of Some s \<Rightarrow> Some s | None \<Rightarrow> node_value c)))"

fun content_string :: "content_node list \<Rightarrow> string option" where
  "content_string [] = None"
| "content_string (c # cs) =
     (case node_string c of Some s \<Rightarrow> Some s | None \<Rightarrow> content_string cs)"

fun items_string :: "output_item list \<Rightarrow> string option" where
  "items_string [] = None"
| "items_string (item # rest) =
     (case content_string (case item_content item of None \<Rightarrow> [] | Some cs \<Rightarrow> cs) of
        Some s \<Rightarrow> Some s
      | None \<Rightarrow> items_string rest)"

text \<open>\<^verbatim>\<open>choices?.[0]?.message?.content\<close>\<close>

definition first_choice_content :: "choice list option \<Rightarrow> string option" where
  "first_choice_content cs =
     (case cs of
        Some (c # rest) \<Rightarrow> (case message c of None \<Rightarrow> None | Some m \<Rightarrow> msg_content m)
      | _ \<Rightarrow> None)"

definition extractOutputText :: "responses_like option \<Rightarrow> string option" where
  "extractOutputText res =
     (case res of
        None \<Rightarrow> None
      | Some r \<Rightarrow>
          (case nonempty (output_text r) of
             Some s \<Rightarrow> Some s
           | None \<Rightarrow>
               (let out = (case resp_output r of
                             Some items \<Rightarrow> items
                           | None \<Rightarrow> (case resp_outputs r of Some items \<Rightarrow> items | None \<Rightarrow> []))
                in case items_string out of
                     Some s \<Rightarrow> Some s
                   | None \<Rightarrow> nonempty (first_choice_content (choices r)))))"

subsection \<open>The network and the environment\<close>

record responses_request =
  req_apiKey :: string
  req_model :: string
  req_input :: string
  req_effort :: "string option"
  req_verbosity :: "string option"

record chat_request =
  chat_apiKey :: string
  chat_model :: string
  chat_messages :: "(string \<times> string) list"

record chat_completion =
  chat_choices :: "choice list option"

text \<open>The answer of the DuckDuckGo Instant Answer API, as far as the source reads it. An
  entry of \<^verbatim>\<open>RelatedTopics\<close> is a topic or a group of topics.\<close>

record ddg_topic =
  topic_Text :: "string option"
  topic_FirstURL :: "string option"

datatype ddg_related = Topic ddg_topic | Group "ddg_topic list"

record ddg_data =
  Abstract :: "string option"
  AbstractURL :: "string option"
  RelatedTopics :: "ddg_related list option"

text \<open>Every request the client sends leaves a trace.\<close>

datatype net_call =
    ResponsesCreate responses_request
  | ChatCompletionsCreate chat_request
  | Fetch string

text \<open>
  The environment of one call: the three \<^verbatim>\<open>import.meta.env\<close> variables; how the
  provider answers a request to the Responses API and to the Chat Completions API
  (\<open>Inl\<close> is a rejected promise, whatever the reason, a failing
  \<^verbatim>\<open>import("openai")\<close> included); the outcome of fetching a search URL (\<open>None\<close> when
  \<^verbatim>\<open>fetch\<close> throws, the status is not ok or the body is not JSON); and
  \<^verbatim>\<open>JSON.parse\<close> (\<open>None\<close> when it throws a \<^verbatim>\<open>SyntaxError\<close>).
\<close>

record ai_env =
  VITE_OPENAI_API_KEY :: "string option"
  VITE_OPENAI_MODEL :: "string option"
  VITE_OPENAI_FALLBACK_MODEL :: "string option"
  responses_create :: "responses_request \<Rightarrow> js_error + responses_like option"
  chat_create :: "chat_request \<Rightarrow> js_error + chat_completion"
  fetch_json :: "string \<Rightarrow> ddg_data option"
  JSON_parse :: "string \<Rightarrow> json option"

text \<open>The parameter objects. An \<^verbatim>\<open>AbortSignal\<close> is its \<^verbatim>\<open>aborted\<close> flag.\<close>

record abort_signal =
  aborted :: bool

record common_params =
  pdfText :: string
  model :: "string option"
  apiKey :: "string option"

record cancellable_params = common_params +
  abortSignal :: "abort_signal option"

record suggest_params = cancellable_params +
  highlightText :: string
  pageNumber :: "nat option"
  projectName :: "string option"

datatype role = User | Assistant

record chat_turn =
  role :: role
  turn_content :: string

record ask_params = cancellable_params +
  question :: string
  history :: "chat_turn list option"

definition nl :: string where
  "nl = [CHR 0x0A]"

text \<open>\<^verbatim>\<open>const DEFAULT_MODEL = import.meta.env.VITE_OPENAI_MODEL || "gpt-5"\<close>\<close>

definition DEFAULT_MODEL :: "ai_env \<Rightarrow> string" where
  "DEFAULT_MODEL env = or_default (VITE_OPENAI_MODEL env) ''gpt-5''"

subsection \<open>\<^verbatim>\<open>suggestComment\<close>\<close>

definition suggest_prompt :: "suggest_params \<Rightarrow> string" where
  \<open>suggest_prompt params =
     join nl
       [''You are a professional AEC review assistant (architecture/engineering/construction).'',
        ''Write concise, professional comments (no emojis).'',
        ''Return STRICT JSON only with keys: text, severity, category.'',
        ''severity must be one of: low, medium, high, critical. category must be one of: general, design, safety, spec, cost, schedule, other.'',
        ''The comment should be concise and to the point, and should be no more than 100 words.'',
        [],
        ''Project: '' @ or_default (projectName params) ''Untitled'',
        ''Page: '' @ (case pageNumber params of
                        None \<Rightarrow> ''?''
                      | Some n \<Rightarrow> if n \<noteq> 0 then toString n else ''?''),
        ''Highlighted excerpt:'',
        slice (highlightText params) 0 4000,
        [],
        ''Full PDF text (truncated):'',
        slice (pdfText params) 0 160000,
        [],
        ''Respond with only JSON, e.g. {"text":"...","severity":"medium","category":"design"}.'']\<close>

text \<open>From the text of an answer to a suggestion: the statements from
  \<^verbatim>\<open>content.indexOf("{")\<close> to \<^verbatim>\<open>return suggestion\<close>, which the primary and the
  fallback path both run. \<open>Inr None\<close> is \<^verbatim>\<open>return null\<close>; \<open>Inl\<close> is an exception.\<close>

definition suggestion_of :: "json \<Rightarrow> string \<Rightarrow> js_error + comment_suggestion" where
  "suggestion_of parsed excerpt =
     (case get_prop parsed ''text'' of
        Inl e \<Rightarrow> Inl e
      | Inr t \<Rightarrow>
          (case get_prop parsed ''severity'' of
             Inl e \<Rightarrow> Inl e
           | Inr s \<Rightarrow>
               (case get_prop parsed ''category'' of
                  Inl e \<Rightarrow> Inl e
                | Inr c \<Rightarrow>
                    Inr \<lparr>suggestion_text = or_json t (JString excerpt),
                         severity = or_json s (JString ''medium''),
                         category = or_json c (JString ''general'')\<rparr>)))"

definition parse_suggestion ::
  "(string \<Rightarrow> json option) \<Rightarrow> string \<Rightarrow> string \<Rightarrow> js_error + comment_suggestion option" where
  "parse_suggestion parse excerpt content =
     (case indexOf content (CHR ''{'') of
        None \<Rightarrow> Inr None
      | Some jsonStart \<Rightarrow>
          (case lastIndexOf content (CHR ''}'') of
             None \<Rightarrow> Inr None
           | Some jsonEnd \<Rightarrow>
               (case parse (slice content jsonStart (jsonEnd + 1)) of
                  None \<Rightarrow> Inl SyntaxError
                | Some parsed \<Rightarrow>
                    (case suggestion_of parsed excerpt of
                       Inl e \<Rightarrow> Inl e
                     | Inr suggestion \<Rightarrow> Inr (Some suggestion)))))"

definition resolve_apiKey :: "ai_env \<Rightarrow> 'a common_params_scheme \<Rightarrow> string option" where
  "resolve_apiKey env params = or_str (apiKey params) (VITE_OPENAI_API_KEY env)"

definition resolve_model :: "ai_env \<Rightarrow> 'a common_params_scheme \<Rightarrow> string" where
  "resolve_model env params = or_default (model params) (DEFAULT_MODEL env)"

definition suggest_request :: "ai_env \<Rightarrow> suggest_params \<Rightarrow> responses_request" where
  "suggest_request env params =
     \<lparr>req_apiKey = or_default (resolve_apiKey env params) [],
      req_model = resolve_model env params,
      req_input = suggest_prompt params,
      req_effort = Some ''minimal'', req_verbosity = Some ''low''\<rparr>"

definition suggest_fallback_request :: "ai_env \<Rightarrow> suggest_params \<Rightarrow> chat_request" where
  "suggest_fallback_request env params =
     \<lparr>chat_apiKey = or_default (resolve_apiKey env params) [],
      chat_model = or_default (VITE_OPENAI_FALLBACK_MODEL env) (resolve_model env params),
      chat_messages =
        [(''system'', ''You are a professional AEC review assistant. Return STRICT JSON with keys: text, severity, category only.''),
         (''user'', suggest_prompt params)]\<rparr>"

text \<open>The body of the outer \<^verbatim>\<open>try\<close> and the body of the inner one.\<close>

definition suggest_primary :: "ai_env \<Rightarrow> suggest_params \<Rightarrow> js_error + comment_suggestion option" where
  "suggest_primary env params =
     (case responses_create env (suggest_request env params) of
        Inl e \<Rightarrow> Inl e
      | Inr resp \<Rightarrow>
          (case extractOutputText resp of
             None \<Rightarrow> Inr None
           | Some content \<Rightarrow>
               if content = [] then Inr None
               else parse_suggestion (JSON_parse env) (slice (highlightText params) 0 4000) content))"

definition suggest_fallback :: "ai_env \<Rightarrow> suggest_params \<Rightarrow> js_error + comment_suggestion option" where
  "suggest_fallback env params =
     (case chat_create env (suggest_fallback_request env params) of
        Inl e \<Rightarrow> Inl e
      | Inr chat \<Rightarrow>
          (case first_choice_content (chat_choices chat) of
             None \<Rightarrow> Inr None
           | Some content \<Rightarrow>
               if content = [] then Inr None
               else parse_suggestion (JSON_parse env) (slice (highlightText params) 0 4000) content))"

text \<open>\<^verbatim>\<open>suggestComment(params)\<close>: its result and the requests it sent. The parameter
  \<^verbatim>\<open>abortSignal\<close> is declared by the source and read nowhere in the function.\<close>

definition suggestComment :: "ai_env \<Rightarrow> suggest_params \<Rightarrow> comment_suggestion option \<times> net_call list" where
  "suggestComment env params =
     (if \<not> truthy_str (resolve_apiKey env params) then (None, [])
      else
        (case suggest_primary env params of
           Inr result \<Rightarrow> (result, [ResponsesCreate (suggest_request env params)])
         | Inl err \<Rightarrow>
             (case suggest_fallback env params of
                Inr result \<Rightarrow> result
              | Inl err2 \<Rightarrow> None,
              [ResponsesCreate (suggest_request env params),
               ChatCompletionsCreate (suggest_fallback_request env params)])))"

subsection \<open>\<^verbatim>\<open>searchWebDuckDuckGo\<close> and \<^verbatim>\<open>askExpert\<close>\<close>

text \<open>\<^verbatim>\<open>encodeURIComponent\<close> on 8-bit characters: the unreserved characters stay, every
  other one is replaced by the percent-escapes of its UTF-8 bytes.\<close>

definition hex_digit :: "nat \<Rightarrow> char" where
  "hex_digit d = ''0123456789ABCDEF'' ! (d mod 16)"

definition percent :: "nat \<Rightarrow> string" where
  "percent n = [CHR ''%'', hex_digit (n div 16), hex_digit (n mod 16)]"

definition uri_unreserved :: "char \<Rightarrow> bool" where
  "uri_unreserved c =
     (c \<in> set (''ABCDEFGHIJKLMNOPQRSTUVWXYZabcdefghijklmnopqrstuvwxyz0123456789-_.!~*()''
               @ [CHR 0x27]))"

definition encodeURIComponent :: "string \<Rightarrow> string" where
  "encodeURIComponent s =
     concat (map (\<lambda>c. let n = of_char c
                       in if uri_unreserved c then [c]
                          else if n < 128 then percent n
                          else percent (192 + n div 64) @ percent (128 + n mod 64)) s)"

definition addTopic :: "ddg_topic \<Rightarrow> string list" where
  "addTopic t =
     (if truthy_str (topic_Text t) \<and> truthy_str (topic_FirstURL t)
      then [''- '' @ or_default (topic_Text t) [] @ '' ('' @ or_default (topic_FirstURL t) [] @ '')'']
      else [])"

fun related_lines :: "ddg_related \<Rightarrow> string list" where
  "related_lines (Group ts) = concat (map addTopic (slice ts 0 3))"
| "related_lines (Topic t) = addTopic t"

definition search_url :: "string \<Rightarrow> string" where
  "search_url query =
     ''https://api.duckduckgo.com/?q='' @ encodeURIComponent query
       @ ''&format=json&no_html=1&skip_disambig=1''"

definition searchWebDuckDuckGo :: "ai_env \<Rightarrow> string \<Rightarrow> string option \<times> net_call list" where
  "searchWebDuckDuckGo env query =
     (case fetch_json env (search_url query) of
        None \<Rightarrow> (None, [Fetch (search_url query)])
      | Some d \<Rightarrow>
          (let lines =
                 (if truthy_str (Abstract d) \<and> truthy_str (AbstractURL d)
                  then [''- '' @ or_default (Abstract d) [] @ '' ('' @ or_default (AbstractURL d) []
                          @ '')'']
                  else [])
                 @ concat (map related_lines
                             (case RelatedTopics d of None \<Rightarrow> [] | Some rts \<Rightarrow> rts))
           in (Some (join nl (slice lines 0 5)), [Fetch (search_url query)])))"

text \<open>\<^verbatim>\<open>raw.replace(/^@(search|think)\s*/i, '')\<close>: the pattern ignores case, the two
  \<^verbatim>\<open>startsWith\<close> tests do not.\<close>

definition lower :: "char \<Rightarrow> char" where
  "lower c = (if CHR ''A'' \<le> c \<and> c \<le> CHR ''Z'' then char_of (of_char c + (32::nat)) else c)"

definition strip_command :: "string \<Rightarrow> string" where
  "strip_command raw =
     (if map lower (take 7 raw) = ''@search'' then dropWhile js_whitespace (drop 7 raw)
      else if map lower (take 6 raw) = ''@think'' then dropWhile js_whitespace (drop 6 raw)
      else raw)"

definition ask_instructions :: "bool \<Rightarrow> string" where
  "ask_instructions isThink =
     join '' ''
       [''You are an expert AEC assistant. Be precise and cite product names/links when available. Do not reveal chain-of-thought.'',
        if isThink then ''Deliberate internally; provide only the final answer.''
        else ''Answer succinctly.'']"

definition historyText :: "chat_turn list option \<Rightarrow> string" where
  "historyText h =
     (case h of
        None \<Rightarrow> []
      | Some turns \<Rightarrow>
          if length turns = 0 then []
          else ''Chat history (most recent last):'' @ nl
               @ join nl (map (\<lambda>m. (if role m = User then ''User'' else ''Assistant'') @ '': ''
                                      @ turn_content m)
                            (drop (length turns - 10) turns))
               @ nl @ nl)"

definition userPrompt :: "ask_params \<Rightarrow> bool \<Rightarrow> string option \<Rightarrow> string \<Rightarrow> string" where
  "userPrompt params isSearch searchAppendix cleaned =
     join nl
       [if isSearch \<and> truthy_str searchAppendix
        then ''Recent web results:'' @ nl @ or_default searchAppendix [] @ nl else [],
        ''Relevant PDF context (truncated):'',
        slice (pdfText params) 0 120000,
        [],
        historyText (history params),
        ''Question:'',
        cleaned]"

text \<open>\<^verbatim>\<open>askExpert(params)\<close>: its answer and the requests it sent, the search first.\<close>

definition askExpert :: "ai_env \<Rightarrow> ask_params \<Rightarrow> string option \<times> net_call list" where
  "askExpert env params =
     (if \<not> truthy_str (resolve_apiKey env params) then (None, [])
      else
        (let raw = trim (question params);
             isSearch = startsWith raw ''@search'';
             isThink = startsWith raw ''@think'';
             cleaned = trim (strip_command raw);
             (searchAppendix, searched) =
               (if isSearch then searchWebDuckDuckGo env cleaned else (None, []));
             instructions = ask_instructions isThink;
             up = userPrompt params isSearch searchAppendix cleaned;
             req = \<lparr>req_apiKey = or_default (resolve_apiKey env params) [],
                    req_model = resolve_model env params,
                    req_input = ''System: '' @ instructions @ nl @ nl @ up,
                    req_effort = Some (if isThink then ''high'' else ''minimal''),
                    req_verbosity = None\<rparr>
         in case responses_create env req of
              Inr resp \<Rightarrow> (extractOutputText resp, searched @ [ResponsesCreate req])
            | Inl err \<Rightarrow>
                (let creq = \<lparr>chat_apiKey = or_default (resolve_apiKey env params) [],
                             chat_model = or_default (VITE_OPENAI_FALLBACK_MODEL env)
                                            (resolve_model env params),
                             chat_messages = [(''system'', instructions), (''user'', up)]\<rparr>
                 in (case chat_create env creq of
                       Inr chat \<Rightarrow> nonempty (first_choice_content (chat_choices chat))
                     | Inl err2 \<Rightarrow> None,
                     searched @ [ResponsesCreate req, ChatCompletionsCreate creq]))))"

subsection \<open>\<^verbatim>\<open>suggestNextFocus\<close>\<close>

text \<open>\<^verbatim>\<open>type NextFocusSuggestion\<close>\<close>

record next_focus =
  nf_pageNumber :: "real option"
  suggestion :: comment_suggestion

definition focus_request :: "ai_env \<Rightarrow> common_params \<Rightarrow> responses_request" where
  \<open>focus_request env params =
     \<lparr>req_apiKey = or_default (resolve_apiKey env params) [],
      req_model = resolve_model env params,
      req_input =
        ''System: ''
        @ join '' ''
            [''You are an expert AEC reviewer. Output STRICT JSON only.'',
             ''Keys: pageNumber (integer or null), suggestion { text, severity, category }.'',
             ''severity in {low,medium,high,critical}, category in {general,design,safety,spec,cost,schedule,other}.'']
        @ nl @ nl
        @ join nl
            [''Given the following PDF text (truncated), recommend the next place to look (a page number if known) and a concise suggested comment.'',
             slice (pdfText params) 0 140000,
             ''Respond only with JSON, e.g. {"pageNumber": 12, "suggestion": {"text":"...","severity":"medium","category":"design"}}''],
      req_effort = None, req_verbosity = None\<rparr>\<close>

text \<open>From the parsed object to the result:
  \<^verbatim>\<open>const sug = parsed.suggestion || {}\<close> and the object literal that is returned.
  \<open>sug\<close> is truthy, hence not \<^verbatim>\<open>null\<close>, so reading its properties does not throw and
  the last case below does not arise.\<close>

definition focus_of :: "json \<Rightarrow> js_error + next_focus" where
  "focus_of parsed =
     (case get_prop parsed ''suggestion'' of
        Inl e \<Rightarrow> Inl e
      | Inr s \<Rightarrow>
          (let sug = or_json s (JObject [])
           in case get_prop parsed ''pageNumber'' of
                Inl e \<Rightarrow> Inl e
              | Inr pn \<Rightarrow>
                  (case (get_prop sug ''text'', get_prop sug ''severity'', get_prop sug ''category'') of
                     (Inr t, Inr sv, Inr c) \<Rightarrow>
                       Inr \<lparr>nf_pageNumber = (case pn of Some (JNumber r) \<Rightarrow> Some r | _ \<Rightarrow> None),
                            suggestion =
                              \<lparr>suggestion_text = or_json t (JString []),
                               severity = or_json sv (JString ''medium''),
                               category = or_json c (JString ''general'')\<rparr>\<rparr>
                   | _ \<Rightarrow> Inl TypeError)))"

text \<open>\<^verbatim>\<open>suggestNextFocus(params)\<close>; it has no fallback request.\<close>

definition suggestNextFocus :: "ai_env \<Rightarrow> common_params \<Rightarrow> next_focus option \<times> net_call list" where
  "suggestNextFocus env params =
     (if \<not> truthy_str (resolve_apiKey env params) then (None, [])
      else
        (case responses_create env (focus_request env params) of
           Inl err \<Rightarrow> None
         | Inr resp \<Rightarrow>
             (case extractOutputText resp of
                None \<Rightarrow> None
              | Some content \<Rightarrow>
                  if content = [] then None
                  else
                    (case indexOf content (CHR ''{'') of
                       None \<Rightarrow> None
                     | Some jStart \<Rightarrow>
                         (case lastIndexOf content (CHR ''}'') of
                            None \<Rightarrow> None
                          | Some jEnd \<Rightarrow>
                              (case JSON_parse env (slice content jStart (jEnd + 1)) of
                                 None \<Rightarrow> None
                               | Some parsed \<Rightarrow>
                                   (case focus_of parsed of
                                      Inl e \<Rightarrow> None
                                    | Inr r \<Rightarrow> Some r))))),
         [ResponsesCreate (focus_request env params)]))"

section \<open>Sample inputs\<close>

text \<open>Concrete backends, files and states on which the theorems below are instantiated.\<close>

definition all_succeed :: "unit backend" where
  "all_succeed = \<lparr>store = [], succeeds = (\<lambda>r. True), message_of = (\<lambda>r. []), newId = ''doc1''\<rparr>"

definition small_pdf :: picked_file where
  "small_pdf = \<lparr>file_name = ''a.pdf'', file_type = ''application/pdf'', file_bytes = [72, 105, 33]\<rparr>"

definition large_pdf :: picked_file where
  "large_pdf =
     \<lparr>file_name = ''b.pdf'', file_type = ''application/pdf'', file_bytes = replicate 375001 0\<rparr>"

definition initial_state :: viewer_state where
  "initial_state = \<lparr>pdfs = [], selectedPdfId = None, selectedPdfUrl = None, error = None, loading = False\<rparr>"

definition delete_store :: "unit firestore" where
  "delete_store =
     [([''projects'', ''p1'', ''pdfs'', ''doc1''],
         PdfDoc \<lparr>pdf_name = ''a.pdf'', ownerUid = None, numChunks = 2, pdf_size = 6,
                 mimeType = ''application/pdf''\<rparr>),
      ([''projects'', ''p1'', ''pdfs'', ''doc1'', ''chunks'', ''000001''],
         ChunkDoc \<lparr>index = 1, data = ''BAUG''\<rparr>),
      ([''projects'', ''p1'', ''pdfs'', ''doc1'', ''chunks'', ''000000''],
         ChunkDoc \<lparr>index = 0, data = ''AQID''\<rparr>),
      ([''projects'', ''p1'', ''pdfs'', ''doc1'', ''annotations'', ''default''],
         AnnotationsDoc [])]"

definition chunk_delete_fails :: "unit backend" where
  "chunk_delete_fails =
     \<lparr>store = delete_store,
      succeeds = (\<lambda>r. r \<noteq> DeleteDoc [''projects'', ''p1'', ''pdfs'', ''doc1'', ''chunks'', ''000000'']),
      message_of = (\<lambda>r. ''permission-denied''), newId = ''doc2''\<rparr>"

definition listing_fails :: "unit backend" where
  "listing_fails =
     \<lparr>store = delete_store,
      succeeds = (\<lambda>r. case r of GetDocs p ob \<Rightarrow> False | _ \<Rightarrow> True),
      message_of = (\<lambda>r. ''unavailable''), newId = ''doc2''\<rparr>"

definition doc1_selected :: viewer_state where
  "doc1_selected =
     \<lparr>pdfs = [], selectedPdfId = Some ''doc1'', selectedPdfUrl = None, error = None,
      loading = False\<rparr>"





definition reply0 :: comment_reply where
  "reply0 = \<lparr>reply_id = ''777'', reply_text = ''first'', authorUid = Some ''u1'', createdAt = 5\<rparr>"

definition two_highlights :: "(nat, string) rich_highlight list" where
  "two_highlights =
     [\<lparr>hl_id = ''h1'', hl_position = 1, hl_content = ''beam'',
       hl_comment = \<lparr>comment_text = ''check'', emoji = []\<rparr>,
       meta = Some \<lparr>meta_severity = ''high'', meta_category = ''safety'', replies = [reply0]\<rparr>\<rparr>,
      \<lparr>hl_id = ''h2'', hl_position = 2, hl_content = ''slab'',
       hl_comment = \<lparr>comment_text = ''ok'', emoji = []\<rparr>, meta = None\<rparr>]"

definition editing :: "(nat, string) editor_state" where
  "editing = \<lparr>highlights = two_highlights, replyDrafts = [''h1'' \<mapsto> '' agreed '']\<rparr>"

definition annotations_backend :: "(nat, string) rich_highlight backend" where
  "annotations_backend =
     \<lparr>store = [], succeeds = (\<lambda>r. True), message_of = (\<lambda>r. []), newId = ''doc9''\<rparr>"

definition editor_env0 :: editor_env where
  "editor_env0 = \<lparr>Math_random = ''0.4821'', Date_now = 1700, currentUid = Some ''u2''\<rparr>"

definition answer_partial :: string where
  \<open>answer_partial = ''Here you go: {"severity":"high"} Thanks.''\<close>

definition parse_partial :: "string \<Rightarrow> json option" where
  \<open>parse_partial s =
     (if s = ''{"severity":"high"}'' then Some (JObject [(''severity'', JString ''high'')])
      else None)\<close>

definition answer_offlist :: string where
  \<open>answer_offlist = ''{"text":"Check the beam","severity":"urgent","category":"fire"}''\<close>

definition answer_focus_offlist :: string where
  \<open>answer_focus_offlist = ''{"pageNumber":3,"suggestion":{"severity":"urgent","category":"fire"}}''\<close>

definition parse_offlist :: "string \<Rightarrow> json option" where
  "parse_offlist s =
     (if s = answer_offlist then
        Some (JObject [(''text'', JString ''Check the beam''), (''severity'', JString ''urgent''),
                       (''category'', JString ''fire'')])
      else if s = answer_focus_offlist then
        Some (JObject [(''pageNumber'', JNumber 3),
                       (''suggestion'',
                        JObject [(''severity'', JString ''urgent''), (''category'', JString ''fire'')])])
      else None)"

definition joined_text :: "string \<Rightarrow> responses_like option" where
  "joined_text s =
     Some \<lparr>output_text = Some s, resp_output = None, resp_outputs = None, choices = None\<rparr>"

definition env_no_key :: ai_env where
  "env_no_key =
     \<lparr>VITE_OPENAI_API_KEY = None, VITE_OPENAI_MODEL = None, VITE_OPENAI_FALLBACK_MODEL = None,
      responses_create = (\<lambda>r. Inr (joined_text answer_offlist)),
      chat_create = (\<lambda>r. Inl (ApiError ''unreachable'')),
      fetch_json = (\<lambda>u. None), JSON_parse = parse_offlist\<rparr>"

definition env_partial :: ai_env where
  "env_partial =
     \<lparr>VITE_OPENAI_API_KEY = Some ''sk-test'', VITE_OPENAI_MODEL = None,
      VITE_OPENAI_FALLBACK_MODEL = None,
      responses_create = (\<lambda>r. Inr (joined_text answer_partial)),
      chat_create = (\<lambda>r. Inl (ApiError ''unreachable'')),
      fetch_json = (\<lambda>u. None), JSON_parse = parse_partial\<rparr>"


definition env_primary_down :: ai_env where
  "env_primary_down =
     \<lparr>VITE_OPENAI_API_KEY = Some ''sk-test'', VITE_OPENAI_MODEL = None,
      VITE_OPENAI_FALLBACK_MODEL = None,
      responses_create = (\<lambda>r. Inl (ApiError ''Connection error.'')),
      chat_create =
        (\<lambda>r. Inr \<lparr>chat_choices =
                      Some [\<lparr>message = Some \<lparr>msg_content = Some answer_offlist\<rparr>\<rparr>]\<rparr>),
      fetch_json = (\<lambda>u. None), JSON_parse = parse_offlist\<rparr>"

definition beam_params :: suggest_params where
  "beam_params =
     \<lparr>pdfText = ''Beam B1 spans 6 m.'', model = None, apiKey = None, abortSignal = None,
      highlightText = ''Beam B1'', pageNumber = Some 2, projectName = None\<rparr>"

definition cancelled_params :: suggest_params where
  "cancelled_params = beam_params\<lparr>abortSignal := Some \<lparr>aborted = True\<rparr>\<rparr>"

definition question_params :: ask_params where
  "question_params =
     \<lparr>pdfText = ''Beam B1 spans 6 m.'', model = None, apiKey = Some [], abortSignal = None,
      question = ''@search steel grades'', history = None\<rparr>"

definition focus_params :: common_params where
  "focus_params = \<lparr>pdfText = ''Beam B1 spans 6 m.'', model = None, apiKey = None\<rparr>"

section \<open>Properties of the chunk codec\<close>

subsection \<open>Chunk arithmetic\<close>

lemma numChunks_of_div:
  assumes k: "0 < k"
  shows "numChunks_of len k = (len + k - 1) div k"
proof -
  define q where "q = (len + k - 1) div k"
  have split: "q * k + (len + k - 1) mod k = len + k - 1"
    unfolding q_def by simp
  have modlt: "(len + k - 1) mod k < k"
    using k by simp
  have le: "len \<le> q * k" using split modlt by linarith
  have lt: "q * k < len + k" using split k by linarith
  have rk: "0 < real k" using k by simp
  have "real len \<le> real q * real k"
    using le by (metis of_nat_le_iff of_nat_mult)
  then have up: "real len / real k \<le> of_int (int q)"
    using rk by (simp add: pos_divide_le_eq)
  have "real q * real k < real len + real k"
    using lt by (metis of_nat_less_iff of_nat_mult of_nat_add)
  then have "(real q - 1) * real k < real len"
    by (simp add: algebra_simps)
  then have low: "of_int (int q) - 1 < real len / real k"
    using rk by (simp add: pos_less_divide_eq)
  have "\<lceil>real len / real k\<rceil> = int q"
    using low up by (rule ceiling_unique)
  then show ?thesis by (simp add: numChunks_of_def q_def)
qed

lemma numChunks_of_bounds:
  assumes k: "0 < k"
  shows "len \<le> numChunks_of len k * k" and "numChunks_of len k * k < len + k"
proof -
  have split: "(len + k - 1) div k * k + (len + k - 1) mod k = len + k - 1"
    by simp
  have modlt: "(len + k - 1) mod k < k"
    using k by simp
  show "len \<le> numChunks_of len k * k"
    using split modlt unfolding numChunks_of_div [OF k] by linarith
  show "numChunks_of len k * k < len + k"
    using split k unfolding numChunks_of_div [OF k] by linarith
qed

lemma slice_take_drop: "slice s a b = take (b - a) (drop a s)"
  by (auto simp: slice_def Let_def min_def)

lemma chunk_at_take_drop: "chunk_at k s i = take k (drop (i * k) s)"
  by (auto simp: chunk_at_def slice_take_drop Let_def min_def)

lemma concat_chunks_take:
  "concat (map (chunk_at k s) [0..<n]) = take (n * k) s"
proof (induction n)
  case 0
  then show ?case by simp
next
  case (Suc n)
  have "take (n * k) s @ take k (drop (n * k) s) = take (n * k + k) s"
    by (simp add: take_add)
  then show ?case using Suc by (simp add: chunk_at_take_drop add.commute)
qed

lemma concat_all_chunks:
  assumes k: "0 < k"
  shows "concat (map (chunk_at k s) [0..<numChunks_of (length s) k]) = s"
  using numChunks_of_bounds(1) [OF k, of "length s"] by (simp add: concat_chunks_take)

lemma length_chunk_at:
  assumes k: "0 < k" and i: "i < numChunks_of (length s) k"
  shows "length (chunk_at k s i) = (if Suc i < numChunks_of (length s) k then k else length s - i * k)"
    and "0 < length (chunk_at k s i)" and "length (chunk_at k s i) \<le> k"
proof -
  let ?n = "numChunks_of (length s) k"
  have ub: "?n * k < length s + k" by (rule numChunks_of_bounds(2) [OF k])
  have lb: "length s \<le> ?n * k" by (rule numChunks_of_bounds(1) [OF k])
  have "Suc i * k \<le> ?n * k" using i by (simp add: Suc_leI mult_le_mono1 del: mult_Suc)
  then have ik: "i * k + k \<le> ?n * k" by (simp add: add.commute)
  then have pos: "i * k < length s" using ub by linarith
  show "0 < length (chunk_at k s i)" using pos k by (simp add: chunk_at_take_drop)
  show "length (chunk_at k s i) \<le> k" by (simp add: chunk_at_take_drop)
  show "length (chunk_at k s i) = (if Suc i < ?n then k else length s - i * k)"
  proof (cases "Suc i < ?n")
    case True
    then have "Suc (Suc i) * k \<le> ?n * k" by (simp add: Suc_leI mult_le_mono1 del: mult_Suc)
    then have "i * k + k + k \<le> ?n * k" by (simp add: add.commute add.left_commute)
    then have "i * k + k \<le> length s" using ub by linarith
    then show ?thesis using True by (simp add: chunk_at_take_drop)
  next
    case False
    then have "?n = Suc i" using i by simp
    then have "length s \<le> i * k + k" using lb by (simp add: add.commute)
    then show ?thesis using False by (simp add: chunk_at_take_drop)
  qed
qed

lemma indexOf_nth: "distinct xs \<Longrightarrow> i < length xs \<Longrightarrow> indexOf xs (xs ! i) = Some i"
proof (induction xs arbitrary: i)
  case Nil
  then show ?case by simp
next
  case (Cons x xs)
  then show ?case by (cases i) auto
qed

lemma length_b64_alphabet: "length b64_alphabet = 64"
  by (simp add: b64_alphabet_def)

lemma distinct_b64_alphabet: "distinct b64_alphabet"
  by (simp add: b64_alphabet_def)

lemma b64_index_char: "b64_index (b64_char i) = Some (i mod 64)"
  by (simp add: b64_index_def b64_char_def indexOf_nth distinct_b64_alphabet length_b64_alphabet)

lemma b64_char_plain: "\<not> ascii_whitespace (b64_char i) \<and> b64_char i \<noteq> CHR ''=''"
proof -
  have "b64_char i \<in> set b64_alphabet"
    by (simp add: b64_char_def length_b64_alphabet)
  moreover have "\<forall>c \<in> set b64_alphabet. \<not> ascii_whitespace c \<and> c \<noteq> CHR ''=''"
    by (simp add: b64_alphabet_def ascii_whitespace_def)
  ultimately show ?thesis by blast
qed

lemma of_char_less_256: "of_char c < (256::nat)"
proof -
  have "of_char c mod 256 = (of_char c :: nat)" by simp
  then show ?thesis by (metis mod_less_divisor zero_less_numeral)
qed

lemma strip_padding_quad:
  assumes p: "p = [c0, c1, c2, c3]" and c3: "c3 \<noteq> CHR ''=''"
  shows "strip_padding (p @ t) = p @ strip_padding t"
proof -
  have len: "length (p @ t) mod 4 = length t mod 4" using p by simp
  show ?thesis
  proof (cases "rev t")
    case Nil
    then show ?thesis using p c3 by (simp add: strip_padding_def)
  next
    case (Cons x r)
    note outer = Cons
    show ?thesis
    proof (cases r)
      case Nil
      then have "t = [x]" using outer by simp
      then show ?thesis using p by (simp add: strip_padding_def)
    next
      case (Cons y r')
      then have "rev t = x # y # r'" using outer by simp
      then have rv: "rev (p @ t) = x # y # (r' @ rev p)" by simp
      have "rev (r' @ rev p) = p @ rev r'" by simp
      then show ?thesis
        unfolding strip_padding_def len rv \<open>rev t = x # y # r'\<close>
        by (simp add: p)
    qed
  qed
qed

lemma those_indices_quad:
  "those_indices (b64_char i0 # b64_char i1 # b64_char i2 # b64_char i3 # t) =
     (case those_indices t of None \<Rightarrow> None
      | Some is \<Rightarrow> Some (i0 mod 64 # i1 mod 64 # i2 mod 64 # i3 mod 64 # is))"
  by (simp add: b64_index_char split: option.splits)

lemma atob_quad:
  "atob (b64_char i0 # b64_char i1 # b64_char i2 # b64_char i3 # t) =
     (case atob t of None \<Rightarrow> None
      | Some r \<Rightarrow> Some (sextets_to_bytes [i0 mod 64, i1 mod 64, i2 mod 64, i3 mod 64] @ r))"
proof -
  let ?p = "[b64_char i0, b64_char i1, b64_char i2, b64_char i3]"
  let ?f = "filter (\<lambda>c. \<not> ascii_whitespace c)"
  have f: "?f (?p @ t) = ?p @ ?f t" by (simp add: b64_char_plain)
  have s: "strip_padding (?p @ ?f t) = ?p @ strip_padding (?f t)"
    by (rule strip_padding_quad [OF refl]) (simp add: b64_char_plain)
  define d where "d = strip_padding (?f t)"
  have len: "length (?p @ d) mod 4 = length d mod 4" by simp
  have a1: "atob (?p @ t) = (if length d mod 4 = 1 then None
       else (case those_indices (?p @ d) of None \<Rightarrow> None | Some is \<Rightarrow> Some (sextets_to_bytes is)))"
    unfolding atob_def f s Let_def d_def [symmetric] len ..
  have a2: "atob t = (if length d mod 4 = 1 then None
       else (case those_indices d of None \<Rightarrow> None | Some is \<Rightarrow> Some (sextets_to_bytes is)))"
    unfolding atob_def Let_def d_def [symmetric] ..
  have "atob (?p @ t) =
     (case atob t of None \<Rightarrow> None
      | Some r \<Rightarrow> Some (sextets_to_bytes [i0 mod 64, i1 mod 64, i2 mod 64, i3 mod 64] @ r))"
    unfolding a1 a2
    by (cases "those_indices d") (simp_all add: b64_index_char Let_def)
  then show ?thesis by simp
qed

lemma enc_a: "x < 256 \<Longrightarrow> y < (256::nat) \<Longrightarrow> (x div 4) mod 64 * 4 + (x mod 4 * 16 + y div 16) mod 64 div 16 = x"
proof -
  assume x: "x < 256" and y: "y < 256"
  have 1: "x div 4 < 64" using x by simp
  have 2: "y div 16 < 16" using y by simp
  have 3: "x mod 4 < 4" by simp
  have 4: "x mod 4 * 16 + y div 16 < 64" using 2 3 by linarith
  have 5: "(x mod 4 * 16 + y div 16) div 16 = x mod 4" using 2 by simp
  show ?thesis using 1 4 5 by simp
qed

lemma enc_b: "y < 256 \<Longrightarrow> z < (256::nat) \<Longrightarrow> (x mod 4 * 16 + y div 16) mod 64 mod 16 * 16 + (y mod 16 * 4 + z div 64) mod 64 div 4 = y"
proof -
  assume y: "y < 256" and z: "z < 256"
  have 2: "y div 16 < 16" using y by simp
  have 3: "z div 64 < 4" using z by simp
  have "(x mod 4 * 16 + y div 16) mod 64 mod 16 = (x mod 4 * 16 + y div 16) mod 16"
    by (simp add: mod_mod_cancel)
  also have "\<dots> = y div 16" using 2 by simp
  finally have 4: "(x mod 4 * 16 + y div 16) mod 64 mod 16 = y div 16" .
  have "y mod 16 < 16" by simp
  then have 5: "y mod 16 * 4 + z div 64 < 64" using 3 by linarith
  have 6: "(y mod 16 * 4 + z div 64) div 4 = y mod 16" using 3 by simp
  show ?thesis using 4 5 6 by simp
qed

lemma enc_c: "z < (256::nat) \<Longrightarrow> (y mod 16 * 4 + z div 64) mod 64 mod 4 * 64 + z mod 64 mod 64 = z"
proof -
  assume z: "z < 256"
  have 3: "z div 64 < 4" using z by simp
  have "(y mod 16 * 4 + z div 64) mod 64 mod 4 = (y mod 16 * 4 + z div 64) mod 4"
    by (simp add: mod_mod_cancel)
  also have "\<dots> = z div 64" using 3 by simp
  finally have 4: "(y mod 16 * 4 + z div 64) mod 64 mod 4 = z div 64" .
  show ?thesis unfolding 4 by simp
qed

lemma enc_b2: "y < (256::nat) \<Longrightarrow> (x mod 4 * 16 + y div 16) mod 64 mod 16 * 16 + (y mod 16 * 4) mod 64 div 4 = y"
  using enc_b [of y 0 x] by simp

lemma enc_a1: "x < (256::nat) \<Longrightarrow> (x div 4) mod 64 * 4 + (x mod 4 * 16) mod 64 div 16 = x"
  using enc_a [of x 0] by simp

lemma sextets_triple:
  assumes "x < 256" "y < 256" "z < (256::nat)"
  shows "sextets_to_bytes [(x div 4) mod 64, (x mod 4 * 16 + y div 16) mod 64,
            (y mod 16 * 4 + z div 64) mod 64, z mod 64 mod 64]
           = [char_of x, char_of y, char_of z]"
  unfolding sextets_to_bytes.simps enc_a [OF assms(1,2)] enc_b [OF assms(2,3)] enc_c [OF assms(3)]
  by simp

lemma sextets_pair:
  assumes "x < 256" "y < (256::nat)"
  shows "sextets_to_bytes [(x div 4) mod 64, (x mod 4 * 16 + y div 16) mod 64, (y mod 16 * 4) mod 64]
           = [char_of x, char_of y]"
  unfolding sextets_to_bytes.simps enc_a [OF assms] enc_b2 [OF assms(2)] ..

lemma sextets_single:
  assumes "x < (256::nat)"
  shows "sextets_to_bytes [(x div 4) mod 64, (x mod 4 * 16) mod 64] = [char_of x]"
  unfolding sextets_to_bytes.simps enc_a1 [OF assms] ..

lemma eq_not_whitespace: "\<not> ascii_whitespace (CHR ''='')"
  by (simp add: ascii_whitespace_def)

lemma atob_tail2:
  "atob [b64_char i0, b64_char i1, CHR ''='', CHR ''=''] = Some (sextets_to_bytes [i0 mod 64, i1 mod 64])"
  by (simp add: atob_def strip_padding_def b64_char_plain b64_index_char eq_not_whitespace
        del: sextets_to_bytes.simps)

lemma atob_tail3:
  "atob [b64_char i0, b64_char i1, b64_char i2, CHR ''=''] =
     Some (sextets_to_bytes [i0 mod 64, i1 mod 64, i2 mod 64])"
  by (simp add: atob_def strip_padding_def b64_char_plain b64_index_char eq_not_whitespace
        del: sextets_to_bytes.simps)

lemma atob_btoa: "atob (btoa s) = Some s"
proof (induction s rule: btoa.induct)
  case 1
  show ?case by (simp add: atob_def strip_padding_def)
next
  case (2 a)
  have "sextets_to_bytes [(of_char a div 4) mod 64, (of_char a mod 4 * 16) mod 64] = [char_of (of_char a :: nat)]"
    by (rule sextets_single [OF of_char_less_256])
  then show ?case
    by (simp add: atob_tail2 Let_def del: sextets_to_bytes.simps)
next
  case (3 a b)
  have "sextets_to_bytes [(of_char a div 4) mod 64, (of_char a mod 4 * 16 + of_char b div 16) mod 64,
           (of_char b mod 16 * 4) mod 64] = [char_of (of_char a :: nat), char_of (of_char b :: nat)]"
    by (rule sextets_pair [OF of_char_less_256 of_char_less_256])
  then show ?case
    by (simp add: atob_tail3 Let_def del: sextets_to_bytes.simps)
next
  case (4 a b c rest)
  have "sextets_to_bytes [(of_char a div 4) mod 64, (of_char a mod 4 * 16 + of_char b div 16) mod 64,
           (of_char b mod 16 * 4 + of_char c div 64) mod 64, of_char c mod 64 mod 64]
         = [char_of (of_char a :: nat), char_of (of_char b :: nat), char_of (of_char c :: nat)]"
    by (rule sextets_triple [OF of_char_less_256 of_char_less_256 of_char_less_256])
  then show ?case using 4
    by (simp add: atob_quad Let_def del: sextets_to_bytes.simps)
qed

lemma charCodeAt_fromCharCode: "charCodeAt (fromCharCode b) = b"
proof -
  have "unat b < 256" using unsigned_less [of b, where 'a = nat] by simp
  then show ?thesis by (simp add: charCodeAt_def fromCharCode_def)
qed

lemma length_btoa: "length (btoa s) = 4 * ((length s + 2) div 3)"
proof (induction s rule: btoa.induct)
  case (4 a b c rest)
  have "(length (a # b # c # rest) + 2) div 3 = Suc ((length rest + 2) div 3)" by simp
  then show ?case using 4 by (simp add: Let_def)
qed (simp_all add: Let_def)

lemma btoa_eq_Nil: "btoa s = [] \<longleftrightarrow> s = []"
  by (cases s rule: btoa.cases) (simp_all add: Let_def)

lemma encode_chunks_alt:
  "encode_chunks k B =
     map (\<lambda>i. \<lparr>index = i, data = chunk_at k (base64_of B) i\<rparr>)
       [0..<numChunks_of (length (base64_of B)) k]"
  by (simp add: encode_chunks_def Let_def)

lemma length_encode_chunks:
  "length (encode_chunks k B) = numChunks_of (length (base64_of B)) k"
  by (simp add: encode_chunks_alt)

lemma map_index_encode_chunks:
  "map index (encode_chunks k B) = [0..<length (encode_chunks k B)]"
  by (simp add: encode_chunks_alt comp_def)

lemma map_data_encode_chunks:
  "map data (encode_chunks k B) =
     map (chunk_at k (base64_of B)) [0..<numChunks_of (length (base64_of B)) k]"
  by (simp add: encode_chunks_alt comp_def)

lemma nth_encode_chunks:
  "i < length (encode_chunks k B) \<Longrightarrow>
     encode_chunks k B ! i = \<lparr>index = i, data = chunk_at k (base64_of B) i\<rparr>"
  by (simp add: encode_chunks_alt)

lemma base64_of_eq_Nil: "base64_of B = [] \<longleftrightarrow> B = []"
  by (simp add: base64_of_def binary_of_def btoa_eq_Nil)

lemma numChunks_of_pos: "0 < k \<Longrightarrow> 0 < len \<Longrightarrow> 0 < numChunks_of len k"
  using numChunks_of_bounds(1) [of k len] by (cases "numChunks_of len k") simp_all

lemma numChunks_of_zero: "numChunks_of 0 k = 0"
  by (simp add: numChunks_of_def)

lemma sort_key_index_encode_chunks:
  "sort_key index (encode_chunks k B) = encode_chunks k B"
  by (rule sort_key_id_if_sorted) (simp add: map_index_encode_chunks)

subsection \<open>Chunk count and chunk sizes\<close>

lemma encode_chunks_count_sizes:
  assumes k: "1 \<le> k"
  shows "length (encode_chunks k B) = nat \<lceil>real (length (base64_of B)) / real k\<rceil>
     \<and> (\<forall>i. Suc i < length (encode_chunks k B) \<longrightarrow> length (data (encode_chunks k B ! i)) = k)
     \<and> (0 < length (base64_of B) \<longrightarrow>
          encode_chunks k B \<noteq> []
          \<and> 1 \<le> length (data (last (encode_chunks k B)))
          \<and> length (data (last (encode_chunks k B))) \<le> k)
     \<and> concat (map data (encode_chunks k B)) = base64_of B"
proof -
  let ?s = "base64_of B"
  let ?n = "numChunks_of (length ?s) k"
  have k0: "0 < k" using k by simp
  have len: "length (encode_chunks k B) = ?n" by (rule length_encode_chunks)
  have c1: "length (encode_chunks k B) = nat \<lceil>real (length ?s) / real k\<rceil>"
    by (simp add: len numChunks_of_def)
  have c2: "\<forall>i. Suc i < length (encode_chunks k B) \<longrightarrow> length (data (encode_chunks k B ! i)) = k"
  proof (intro allI impI)
    fix i assume i: "Suc i < length (encode_chunks k B)"
    then have i': "i < ?n" and si: "Suc i < ?n" by (simp_all add: len)
    have "length (chunk_at k ?s i) = k"
      using length_chunk_at(1) [OF k0 i'] si by simp
    then show "length (data (encode_chunks k B ! i)) = k"
      using i by (simp add: nth_encode_chunks)
  qed
  have c3: "0 < length ?s \<longrightarrow>
          encode_chunks k B \<noteq> []
          \<and> 1 \<le> length (data (last (encode_chunks k B)))
          \<and> length (data (last (encode_chunks k B))) \<le> k"
  proof
    assume pos: "0 < length ?s"
    have n: "0 < ?n" by (rule numChunks_of_pos [OF k0 pos])
    then have ne: "encode_chunks k B \<noteq> []" using len by auto
    have i: "?n - 1 < ?n" using n by simp
    have l: "last (encode_chunks k B) = encode_chunks k B ! (?n - 1)"
      using ne by (simp add: last_conv_nth len)
    have d: "data (last (encode_chunks k B)) = chunk_at k ?s (?n - 1)"
      unfolding l using i by (simp add: nth_encode_chunks len)
    show "encode_chunks k B \<noteq> []
          \<and> 1 \<le> length (data (last (encode_chunks k B)))
          \<and> length (data (last (encode_chunks k B))) \<le> k"
      unfolding d using ne length_chunk_at(2,3) [OF k0 i] by (simp add: Suc_le_eq)
  qed
  have c4: "concat (map data (encode_chunks k B)) = ?s"
    by (simp only: map_data_encode_chunks concat_all_chunks [OF k0])
  show ?thesis using c1 c2 c3 c4 by blast
qed

subsection \<open>Round trip\<close>

text \<open>
  Claim C1, as the source has it. For every chunk bound \<open>k \<ge> 1\<close> and every non-empty byte
  sequence \<open>B\<close>, decoding the chunks of \<open>B\<close> gives back exactly \<open>B\<close>. For the empty
  byte sequence the upload writes no chunk, and the download, finding no part, hands the
  viewer no document instead of an empty one.
\<close>

theorem roundtrip_nonempty:
  assumes k: "1 \<le> k"
  shows "decode_chunks (encode_chunks k B) = (if B = [] then NoDocument else Loaded B)"
proof (cases "B = []")
  case True
  then show ?thesis
    by (simp add: decode_chunks_def encode_chunks_def base64_of_def binary_of_def numChunks_of_zero)
next
  case False
  let ?s = "base64_of B"
  let ?n = "numChunks_of (length ?s) k"
  have k0: "0 < k" using k by simp
  have pos: "0 < length ?s" using False by (simp add: base64_of_eq_Nil)
  have n: "0 < ?n" by (rule numChunks_of_pos [OF k0 pos])
  have ne: "\<forall>d \<in> set (map (chunk_at k ?s) [0..<?n]). d \<noteq> []"
    using length_chunk_at(2) [OF k0] by auto
  have parts: "filter (\<lambda>d. d \<noteq> []) (map data (sort_key index (encode_chunks k B)))
                 = map (chunk_at k ?s) [0..<?n]"
    unfolding sort_key_index_encode_chunks map_data_encode_chunks
    using ne by (simp only: filter_True)
  have nonempty: "length (map (chunk_at k ?s) [0..<?n]) \<noteq> 0" using n by simp
  have cat: "concat (map (chunk_at k ?s) [0..<?n]) = ?s" by (rule concat_all_chunks [OF k0])
  have dec: "atob ?s = Some (binary_of B)" by (simp add: base64_of_def atob_btoa)
  have bytes: "map charCodeAt (binary_of B) = B"
    by (simp add: binary_of_def comp_def charCodeAt_fromCharCode)
  show ?thesis
    unfolding decode_chunks_def Let_def parts cat dec
    using nonempty False by (simp add: bytes)
qed


theorem roundtrip_nonempty_witness:
  "(1::nat) \<le> 4
   \<and> decode_chunks (encode_chunks 4 [72, 101, 108, 108, 111]) = Loaded [72, 101, 108, 108, 111]"
proof -
  have k: "(1::nat) \<le> 4" by simp
  show ?thesis using k roundtrip_nonempty [OF k, of "[72, 101, 108, 108, 111]"] by simp
qed

text \<open>The empty file, with the chunk size of the source: the download does not yield the
  empty byte sequence.\<close>

theorem roundtrip_empty_counterexample:
  "decode_chunks (encode_chunks CHUNK_SIZE []) \<noteq> Loaded []"
  by (simp add: decode_chunks_def encode_chunks_def base64_of_def binary_of_def
        numChunks_of_def)

section \<open>Properties of the download\<close>

subsection \<open>Base64 text cut at multiples of four\<close>







subsection \<open>A listing with a gap\<close>







section \<open>Properties of the upload\<close>

subsection \<open>Chunk keys\<close>

lemma toString_small: "n < 10 \<Longrightarrow> toString n = [digit n]"
  by (subst toString.simps) simp

lemma toString_large: "\<not> n < 10 \<Longrightarrow> toString n = toString (n div 10) @ [digit (n mod 10)]"
  by (subst toString.simps) simp

lemma digit_zero: "digit 0 = CHR ''0''"
  by (simp add: digit_def char_of_eq_iff)

lemma padStart_step:
  assumes w: "0 < w"
  shows "padStart (toString n) (Suc w) (CHR ''0'')
           = padStart (toString (n div 10)) w (CHR ''0'') @ [digit (n mod 10)]"
proof (cases "n < 10")
  case True
  have "replicate (w - 1) (CHR ''0'') @ [CHR ''0''] = replicate w (CHR ''0'')"
    using w by (metis Suc_pred' replicate_Suc replicate_append_same)
  then show ?thesis using True
    by (simp add: toString_small padStart_def digit_zero)
next
  case False
  then show ?thesis by (subst toString_large) (simp_all add: padStart_def)
qed

lemma padStart_one: "n < 10 \<Longrightarrow> padStart (toString n) (Suc 0) (CHR ''0'') = [digit n]"
  by (simp add: toString_small padStart_def)

lemma length_padStart_toString:
  "0 < w \<Longrightarrow> n < 10 ^ w \<Longrightarrow> length (padStart (toString n) w (CHR ''0'')) = w"
proof (induction w arbitrary: n)
  case 0
  then show ?case by simp
next
  case (Suc w)
  show ?case
  proof (cases "w = 0")
    case True
    then show ?thesis using Suc.prems by (simp add: padStart_one)
  next
    case False
    then have w: "0 < w" by simp
    have "n div 10 < 10 ^ w" using Suc.prems by (simp add: less_mult_imp_div_less mult.commute)
    then show ?thesis using Suc.IH [OF w] by (simp add: padStart_step [OF w])
  qed
qed

lemma digit_less: "a < b \<Longrightarrow> b < 10 \<Longrightarrow> digit a < digit b"
  by (simp add: digit_def less_char_def)

lemma snoc_less_snoc:
  fixes xs ys :: string
  assumes "length xs = length ys"
  shows "xs @ [a] < ys @ [b] \<longleftrightarrow> xs < ys \<or> xs = ys \<and> a < b"
  using assms
proof (induction xs ys rule: list_induct2)
  case Nil
  then show ?case by simp
next
  case (Cons x xs y ys)
  then show ?case by auto
qed

lemma padStart_toString_less:
  "0 < w \<Longrightarrow> i < j \<Longrightarrow> j < 10 ^ w \<Longrightarrow>
     padStart (toString i) w (CHR ''0'') < padStart (toString j) w (CHR ''0'')"
proof (induction w arbitrary: i j)
  case 0
  then show ?case by simp
next
  case (Suc w)
  show ?case
  proof (cases "w = 0")
    case True
    then show ?thesis using Suc.prems by (simp add: padStart_one digit_less)
  next
    case False
    then have w: "0 < w" by simp
    have j10: "j div 10 < 10 ^ w" using Suc.prems by (simp add: less_mult_imp_div_less mult.commute)
    have i10: "i div 10 < 10 ^ w" using Suc.prems j10 by (meson div_le_mono le_less_trans less_imp_le)
    have len: "length (padStart (toString (i div 10)) w (CHR ''0''))
                 = length (padStart (toString (j div 10)) w (CHR ''0''))"
      by (simp add: length_padStart_toString [OF w i10] length_padStart_toString [OF w j10])
    have le: "i div 10 \<le> j div 10" using Suc.prems by (simp add: div_le_mono)
    show ?thesis
    proof (cases "i div 10 < j div 10")
      case True
      then show ?thesis
        using Suc.IH [OF w True j10] by (simp add: padStart_step [OF w] snoc_less_snoc [OF len])
    next
      case False
      then have eq: "i div 10 = j div 10" using le by simp
      have "i mod 10 < j mod 10"
        using Suc.prems(2) eq by (metis add_less_cancel_left mult_div_mod_eq)
      then have "digit (i mod 10) < digit (j mod 10)" by (simp add: digit_less)
      then show ?thesis by (simp add: padStart_step [OF w] snoc_less_snoc [OF refl] eq)
    qed
  qed
qed

lemma chunkId_fixed_width:
  assumes "i < j" and "j < 1000000"
  shows "length (chunkId i) = 6 \<and> length (chunkId j) = 6 \<and> chunkId i < chunkId j"
proof -
  have j: "j < 10 ^ 6" using assms by simp
  then have i: "i < 10 ^ 6" using assms by linarith
  show ?thesis
    unfolding chunkId_def
    using length_padStart_toString [of 6 i] length_padStart_toString [of 6 j]
      padStart_toString_less [of 6 i j] assms(1) i j by simp
qed

lemma length_chunkId: "i < 1000000 \<Longrightarrow> length (chunkId i) = 6"
  unfolding chunkId_def using length_padStart_toString [of 6 i] by simp

lemma toString_999999: "toString 999999 = ''999999''"
  by (simp add: toString.simps digit_def char_of_eq_iff)

lemma toString_1000000: "toString 1000000 = ''1000000''"
  by (simp add: toString.simps digit_def char_of_eq_iff)

subsection \<open>The requests of one upload\<close>

lemma includes_str_nonempty: "includes_str s p \<Longrightarrow> p \<noteq> [] \<Longrightarrow> s \<noteq> []"
  by (cases s) auto

lemma upload_chunks_requests:
  "upload_chunks b pid did cs = (b', ws, ok) \<Longrightarrow>
     take (length ws) (map (\<lambda>c. SetDoc (chunk_path pid did (chunkId (index c))) (ChunkDoc c)) cs) = ws
     \<and> (ok \<longrightarrow> ws = map (\<lambda>c. SetDoc (chunk_path pid did (chunkId (index c))) (ChunkDoc c)) cs)
     \<and> (\<not> ok \<longrightarrow> ws \<noteq> [] \<and> \<not> succeeds b (last ws))
     \<and> succeeds b' = succeeds b \<and> message_of b' = message_of b \<and> newId b' = newId b"
proof (induction cs arbitrary: b b' ws ok)
  case Nil
  then show ?case by simp
next
  case (Cons c cs)
  let ?w = "SetDoc (chunk_path pid did (chunkId (index c))) (ChunkDoc c)"
  show ?case
  proof (cases "succeeds b ?w")
    case False
    then show ?thesis using Cons.prems by (auto simp: Let_def)
  next
    case True
    let ?b1 = "b\<lparr>store := apply_op (newId b) ?w (store b)\<rparr>"
    obtain b2 ws2 ok2 where r: "upload_chunks ?b1 pid did cs = (b2, ws2, ok2)"
      by (cases "upload_chunks ?b1 pid did cs") auto
    have eq: "b' = b2" "ws = ?w # ws2" "ok = ok2"
      using Cons.prems True r by (simp_all add: Let_def)
    note ih = Cons.IH [OF r]
    have l: "\<not> ok2 \<longrightarrow> last (?w # ws2) = last ws2" using ih by simp
    show ?thesis unfolding eq using ih l by (simp del: last.simps)
  qed
qed

lemma put_requests:
  assumes pdf: "includes_str (file_type f) ''pdf''"
  shows
   "let eff = handleAddPdf True (Some b) uid projectId (Some f) st;
        chunks = encode_chunks CHUNK_SIZE (file_bytes f);
        plan = AddDoc (pdfs_path projectId)
                 (PdfDoc \<lparr>pdf_name = file_name f, ownerUid = uid, numChunks = numChunks_of (length (base64_of (file_bytes f))) CHUNK_SIZE,
                         pdf_size = length (file_bytes f), mimeType = file_type f\<rparr>)
               # map (\<lambda>c. SetDoc (chunk_path projectId (newId b) (chunkId (index c))) (ChunkDoc c)) chunks
               @ [GetDocs (chunks_path projectId (newId b)) (Some ''index'')]
    in requests eff \<noteq> [] \<and> requests eff = take (length (requests eff)) plan
       \<and> (list_all (succeeds b) plan \<longrightarrow> requests eff = plan)"
proof -
  have ne: "file_type f \<noteq> []" using includes_str_nonempty [OF pdf] by simp
  let ?chunks = "encode_chunks CHUNK_SIZE (file_bytes f)"
  let ?a = "AddDoc (pdfs_path projectId)
                 (PdfDoc \<lparr>pdf_name = file_name f, ownerUid = uid, numChunks = numChunks_of (length (base64_of (file_bytes f))) CHUNK_SIZE,
                         pdf_size = length (file_bytes f), mimeType = file_type f\<rparr>)"
  let ?ws = "map (\<lambda>c. SetDoc (chunk_path projectId (newId b) (chunkId (index c))) (ChunkDoc c)) ?chunks"
  let ?q = "GetDocs (chunks_path projectId (newId b)) (Some ''index'')"
  let ?eff = "handleAddPdf True (Some b) uid projectId (Some f) st"
  let ?b1 = "b\<lparr>store := apply_op (newId b) ?a (store b)\<rparr>"
  show ?thesis
  proof (cases "succeeds b ?a")
    case False
    then show ?thesis using ne pdf
      by (simp add: handleAddPdf_def Let_def)
  next
    case True
    obtain b2 ws ok where r: "upload_chunks ?b1 projectId (newId b) ?chunks = (b2, ws, ok)"
      by (cases "upload_chunks ?b1 projectId (newId b) ?chunks") auto
    note u = upload_chunks_requests [OF r]
    show ?thesis
    proof (cases ok)
      case False
      have "requests (handleAddPdf True (Some b) uid projectId (Some f) st) = ?a # ws"
        using ne pdf True r False by (simp add: handleAddPdf_def Let_def)
      moreover have "take (length ws) ?ws = ws" using u by blast
      moreover have "\<not> list_all (succeeds b) ?ws"
      proof
        assume all: "list_all (succeeds b) ?ws"
        have "ws \<noteq> []" using u False by blast
        then have "last ws \<in> set ws" by simp
        moreover have "set (take (length ws) ?ws) \<subseteq> set ?ws" by (rule set_take_subset)
        moreover have "take (length ws) ?ws = ws" using u by blast
        ultimately have "last ws \<in> set ?ws" by auto
        then have "succeeds b (last ws)" using all by (auto simp: list_all_iff)
        moreover have "\<not> succeeds ?b1 (last ws)" using u False by blast
        then have "\<not> succeeds b (last ws)" by simp
        ultimately show False by blast
      qed
      ultimately have req: "requests (handleAddPdf True (Some b) uid projectId (Some f) st) = ?a # ws"
        and tk: "take (length ws) ?ws = ws" and nall: "\<not> list_all (succeeds b) ?ws"
        by blast+
      have "length ws \<le> length ?ws" using arg_cong [OF tk, of length] by simp
      then have "take (length ws) (?ws @ [?q]) = take (length ws) ?ws" by simp
      then have t2: "take (length (?a # ws)) (?a # ?ws @ [?q]) = ?a # ws" using tk by simp
      have nall2: "\<not> list_all (succeeds b) (?a # ?ws @ [?q])" using nall by simp
      have c1: "requests ?eff \<noteq> []" unfolding req by simp
      have c2: "requests ?eff = take (length (requests ?eff)) (?a # ?ws @ [?q])"
        unfolding req by (rule t2 [symmetric])
      show ?thesis
        unfolding Let_def using c1 c2 nall2 by blast
    next
      case ok: True
      have ws: "ws = ?ws" using u ok by blast
      have sel: "requests (selectPdf (Some b2) projectId item st') = [GetDocs (chunks_path projectId (item_id item)) (Some ''index'')]"
        for item st'
        by (simp add: selectPdf_def Let_def split: load_result.splits)
      have "requests (handleAddPdf True (Some b) uid projectId (Some f) st) = ?a # ?ws @ [?q]"
        using ne pdf True r ok ws by (simp add: handleAddPdf_def Let_def sel)
      then show ?thesis by (simp add: Let_def)
    qed
  qed
qed

subsection \<open>Chunk count and chunk sizes of an upload\<close>

text \<open>
  Claim C4. For every byte sequence \<open>B\<close> with base64 text of length \<open>L\<close> and every chunk
  bound \<open>k \<ge> 1\<close>, the chunk plan has exactly \<open>\<lceil>L / k\<rceil>\<close> chunks; every chunk but the
  last is exactly \<open>k\<close> characters long; when \<open>L > 0\<close> there is a last chunk and it has
  between 1 and \<open>k\<close> characters; the chunks, joined in order, are the base64 text. And
  this plan is what \<^verbatim>\<open>handleAddPdf\<close> writes, with its bound \<^verbatim>\<open>CHUNK_SIZE\<close>: behind
  the \<^verbatim>\<open>addDoc\<close>, which records the chunk count in \<^verbatim>\<open>numChunks\<close>, it sends one
  \<^verbatim>\<open>setDoc\<close> per chunk of the plan of the file, in order, each carrying that chunk.
  The requests sent are an initial part of this sequence whatever fails, and all of it
  when no request fails: then exactly \<open>\<lceil>L / CHUNK_SIZE\<rceil>\<close> chunk documents are written.
\<close>

theorem chunk_count_and_sizes:
  "(1 \<le> k \<longrightarrow>
      length (encode_chunks k B) = nat \<lceil>real (length (base64_of B)) / real k\<rceil>
      \<and> (\<forall>i. Suc i < length (encode_chunks k B) \<longrightarrow> length (data (encode_chunks k B ! i)) = k)
      \<and> (0 < length (base64_of B) \<longrightarrow>
            encode_chunks k B \<noteq> []
            \<and> 1 \<le> length (data (last (encode_chunks k B)))
            \<and> length (data (last (encode_chunks k B))) \<le> k)
      \<and> concat (map data (encode_chunks k B)) = base64_of B)
   \<and>
   (includes_str (file_type f) ''pdf'' \<longrightarrow>
      (let eff = handleAddPdf True (Some b) uid projectId (Some f) st;
           chunks = encode_chunks CHUNK_SIZE (file_bytes f);
           a = AddDoc (pdfs_path projectId)
                 (PdfDoc \<lparr>pdf_name = file_name f, ownerUid = uid, numChunks = length chunks,
                         pdf_size = length (file_bytes f), mimeType = file_type f\<rparr>);
           writes = map (\<lambda>c. SetDoc (chunk_path projectId (newId b) (chunkId (index c))) (ChunkDoc c))
                      chunks;
           q = GetDocs (chunks_path projectId (newId b)) (Some ''index'')
       in requests eff \<noteq> []
          \<and> requests eff = take (length (requests eff)) (a # writes @ [q])
          \<and> (list_all (succeeds b) (a # writes @ [q]) \<longrightarrow> requests eff = a # writes @ [q])
          \<and> length writes
              = nat \<lceil>real (length (base64_of (file_bytes f))) / real CHUNK_SIZE\<rceil>
          \<and> (\<forall>i. Suc i < length chunks \<longrightarrow> length (data (chunks ! i)) = CHUNK_SIZE)
          \<and> (0 < length (base64_of (file_bytes f)) \<longrightarrow>
                chunks \<noteq> []
                \<and> 1 \<le> length (data (last chunks))
                \<and> length (data (last chunks)) \<le> CHUNK_SIZE)))"
proof (rule conjI; rule impI)
  assume k: "1 \<le> k"
  show "length (encode_chunks k B) = nat \<lceil>real (length (base64_of B)) / real k\<rceil>
      \<and> (\<forall>i. Suc i < length (encode_chunks k B) \<longrightarrow> length (data (encode_chunks k B ! i)) = k)
      \<and> (0 < length (base64_of B) \<longrightarrow>
            encode_chunks k B \<noteq> []
            \<and> 1 \<le> length (data (last (encode_chunks k B)))
            \<and> length (data (last (encode_chunks k B))) \<le> k)
      \<and> concat (map data (encode_chunks k B)) = base64_of B"
    by (rule encode_chunks_count_sizes [OF k])
next
  assume pdf: "includes_str (file_type f) ''pdf''"
  let ?chunks = "encode_chunks CHUNK_SIZE (file_bytes f)"
  have k: "1 \<le> CHUNK_SIZE" by (simp add: CHUNK_SIZE_def)
  note sizes = encode_chunks_count_sizes [OF k, of "file_bytes f"]
  have n: "numChunks_of (length (base64_of (file_bytes f))) CHUNK_SIZE = length ?chunks"
    by (simp add: length_encode_chunks)
  note reqs = put_requests [OF pdf, of b uid projectId st, unfolded Let_def n]
  have len: "length (map (\<lambda>c. SetDoc (chunk_path projectId (newId b) (chunkId (index c))) (ChunkDoc c))
                       ?chunks)
               = nat \<lceil>real (length (base64_of (file_bytes f))) / real CHUNK_SIZE\<rceil>"
    using sizes by simp
  show "let eff = handleAddPdf True (Some b) uid projectId (Some f) st;
           chunks = encode_chunks CHUNK_SIZE (file_bytes f);
           a = AddDoc (pdfs_path projectId)
                 (PdfDoc \<lparr>pdf_name = file_name f, ownerUid = uid, numChunks = length chunks,
                         pdf_size = length (file_bytes f), mimeType = file_type f\<rparr>);
           writes = map (\<lambda>c. SetDoc (chunk_path projectId (newId b) (chunkId (index c))) (ChunkDoc c))
                      chunks;
           q = GetDocs (chunks_path projectId (newId b)) (Some ''index'')
       in requests eff \<noteq> []
          \<and> requests eff = take (length (requests eff)) (a # writes @ [q])
          \<and> (list_all (succeeds b) (a # writes @ [q]) \<longrightarrow> requests eff = a # writes @ [q])
          \<and> length writes
              = nat \<lceil>real (length (base64_of (file_bytes f))) / real CHUNK_SIZE\<rceil>
          \<and> (\<forall>i. Suc i < length chunks \<longrightarrow> length (data (chunks ! i)) = CHUNK_SIZE)
          \<and> (0 < length (base64_of (file_bytes f)) \<longrightarrow>
                chunks \<noteq> []
                \<and> 1 \<le> length (data (last chunks))
                \<and> length (data (last chunks)) \<le> CHUNK_SIZE)"
    unfolding Let_def using reqs len sizes by blast
qed

lemma replicate_5: "replicate 5 x = [x, x, x, x, x]"
  by (simp add: eval_nat_numeral)

lemma chunkId_0: "chunkId 0 = ''000000''"
  by (simp add: chunkId_def padStart_def toString.simps digit_def char_of_eq_iff replicate_5)

lemma chunkId_1: "chunkId 1 = ''000001''"
  by (simp add: chunkId_def padStart_def toString.simps digit_def char_of_eq_iff replicate_5)

lemma encode_chunks_small_pdf:
  "encode_chunks CHUNK_SIZE (file_bytes small_pdf) = [\<lparr>index = 0, data = ''SGkh''\<rparr>]"
proof -
  have L: "length (base64_of (file_bytes small_pdf)) = 4"
    unfolding base64_of_def binary_of_def length_btoa by (simp add: small_pdf_def)
  have n: "numChunks_of 4 CHUNK_SIZE = 1"
    by (simp add: numChunks_of_div CHUNK_SIZE_def)
  show ?thesis
    by (simp add: encode_chunks_def L n)
       (simp add: chunk_at_def slice_def base64_of_def binary_of_def small_pdf_def fromCharCode_def
          b64_char_def b64_alphabet_def CHUNK_SIZE_def)
qed

theorem chunk_count_and_sizes_witness:
  "(1::nat) \<le> 4
   \<and> length (encode_chunks 4 [1, 2, 3, 4, 5, 6, 7]) = 3
   \<and> length (data (encode_chunks 4 [1, 2, 3, 4, 5, 6, 7] ! 0)) = 4
   \<and> length (data (encode_chunks 4 [1, 2, 3, 4, 5, 6, 7] ! 1)) = 4
   \<and> 1 \<le> length (data (last (encode_chunks 4 [1, 2, 3, 4, 5, 6, 7])))
   \<and> length (data (last (encode_chunks 4 [1, 2, 3, 4, 5, 6, 7]))) \<le> 4
   \<and> includes_str (file_type small_pdf) ''pdf''
   \<and> requests (handleAddPdf True (Some all_succeed) None ''p1'' (Some small_pdf) initial_state)
       = [AddDoc [''projects'', ''p1'', ''pdfs'']
            (PdfDoc \<lparr>pdf_name = ''a.pdf'', ownerUid = None, numChunks = 1, pdf_size = 3,
                    mimeType = ''application/pdf''\<rparr>),
          SetDoc [''projects'', ''p1'', ''pdfs'', ''doc1'', ''chunks'', ''000000'']
            (ChunkDoc \<lparr>index = 0, data = ''SGkh''\<rparr>),
          GetDocs [''projects'', ''p1'', ''pdfs'', ''doc1'', ''chunks''] (Some ''index'')]"
proof -
  have k: "(1::nat) \<le> 4" by simp
  have L: "length (base64_of [1, 2, 3, 4, 5, 6, 7]) = 12"
    unfolding base64_of_def binary_of_def length_btoa by simp
  have n: "nat \<lceil>real (12::nat) / real (4::nat)\<rceil> = 3" by simp
  note t = mp [OF conjunct1 [OF chunk_count_and_sizes [of 4 "[1, 2, 3, 4, 5, 6, 7]"]] k]
  have len: "length (encode_chunks 4 [1, 2, 3, 4, 5, 6, 7]) = 3"
    using t unfolding L n by blast
  have full: "\<forall>i. Suc i < 3 \<longrightarrow> length (data (encode_chunks 4 [1, 2, 3, 4, 5, 6, 7] ! i)) = 4"
    using t unfolding len by blast
  have a: "length (data (encode_chunks 4 [1, 2, 3, 4, 5, 6, 7] ! 0)) = 4"
    using full by simp
  have b: "length (data (encode_chunks 4 [1, 2, 3, 4, 5, 6, 7] ! 1)) = 4"
    using full by simp
  have c: "1 \<le> length (data (last (encode_chunks 4 [1, 2, 3, 4, 5, 6, 7])))
           \<and> length (data (last (encode_chunks 4 [1, 2, 3, 4, 5, 6, 7]))) \<le> 4"
    using t unfolding L by simp
  have h: "includes_str (file_type small_pdf) ''pdf''"
    by (simp add: small_pdf_def startsWith_def)
  have all: "list_all (succeeds all_succeed) xs" for xs
    by (simp add: all_succeed_def list_all_iff)
  note u = mp [OF conjunct2 [OF chunk_count_and_sizes
                 [where f = small_pdf and b = all_succeed and uid = None and projectId = "''p1''"
                    and st = initial_state]] h]
  have r: "requests (handleAddPdf True (Some all_succeed) None ''p1'' (Some small_pdf) initial_state)
       = [AddDoc [''projects'', ''p1'', ''pdfs'']
            (PdfDoc \<lparr>pdf_name = ''a.pdf'', ownerUid = None, numChunks = 1, pdf_size = 3,
                    mimeType = ''application/pdf''\<rparr>),
          SetDoc [''projects'', ''p1'', ''pdfs'', ''doc1'', ''chunks'', ''000000'']
            (ChunkDoc \<lparr>index = 0, data = ''SGkh''\<rparr>),
          GetDocs [''projects'', ''p1'', ''pdfs'', ''doc1'', ''chunks''] (Some ''index'')]"
    using u unfolding Let_def encode_chunks_small_pdf
    by (simp add: all chunkId_0 pdfs_path_def chunk_path_def chunks_path_def)
       (simp add: small_pdf_def all_succeed_def)
  show ?thesis using k len a b c h r by blast
qed

subsection \<open>Write order and chunk keys\<close>

lemma length_encode_chunks_le:
  assumes "length (base64_of B) \<le> n * CHUNK_SIZE"
  shows "length (encode_chunks CHUNK_SIZE B) \<le> n"
proof -
  have k: "0 < CHUNK_SIZE" by (simp add: CHUNK_SIZE_def)
  have "numChunks_of (length (base64_of B)) CHUNK_SIZE * CHUNK_SIZE
          < length (base64_of B) + CHUNK_SIZE"
    by (rule numChunks_of_bounds(2) [OF k])
  also have "\<dots> \<le> n * CHUNK_SIZE + CHUNK_SIZE" using assms by simp
  also have "\<dots> = Suc n * CHUNK_SIZE" by simp
  finally have "numChunks_of (length (base64_of B)) CHUNK_SIZE < Suc n"
    using k by (simp only: mult_less_cancel2)
  then show ?thesis by (simp add: length_encode_chunks)
qed

text \<open>
  Claim C5. An upload sends the \<^verbatim>\<open>addDoc\<close> of the PDF document first; then one
  \<^verbatim>\<open>setDoc\<close> per chunk, in index order, chunk \<open>i\<close> under the key \<open>chunkId i\<close>, the index
  padded with zeros to six digits; then the query of the download. Whatever fails, the
  requests sent are an initial part of this sequence, and all of it when nothing fails.
  Every key of the upload is six characters wide, and for every two chunks \<open>i < j\<close>
  of the upload the key of \<open>i\<close> is lexicographically smaller than the key of \<open>j\<close>.

  \<^verbatim>\<open>handleAddPdf\<close> holds the base64 text of the file in one string, so the text is as
  long as a JavaScript string can be at most: fewer than \<open>2\<^sup>3\<^sup>1\<close> characters in every
  engine. The hypothesis on its length is far wider, \<open>10\<^sup>6\<close> times the chunk size
  (\<open>5 \<sqdot> 10\<^sup>1\<^sup>1\<close> characters), the exact reach of six digits: it holds at every
  upload the handler can carry out.
\<close>

theorem put_metadata_first_keys_ordered:
  assumes pdf: "includes_str (file_type f) ''pdf''"
    and fits: "length (base64_of (file_bytes f)) \<le> 1000000 * CHUNK_SIZE"
  shows
   "let eff = handleAddPdf True (Some b) uid projectId (Some f) st;
        chunks = encode_chunks CHUNK_SIZE (file_bytes f);
        plan = AddDoc (pdfs_path projectId)
                 (PdfDoc \<lparr>pdf_name = file_name f, ownerUid = uid,
                         numChunks = numChunks_of (length (base64_of (file_bytes f))) CHUNK_SIZE,
                         pdf_size = length (file_bytes f), mimeType = file_type f\<rparr>)
               # map (\<lambda>c. SetDoc (chunk_path projectId (newId b) (chunkId (index c))) (ChunkDoc c)) chunks
               @ [GetDocs (chunks_path projectId (newId b)) (Some ''index'')]
    in requests eff \<noteq> [] \<and> requests eff = take (length (requests eff)) plan
       \<and> (list_all (succeeds b) plan \<longrightarrow> requests eff = plan)
       \<and> map index chunks = [0..<length chunks]
       \<and> (\<forall>i. i < length chunks \<longrightarrow> length (chunkId i) = 6)
       \<and> (\<forall>i j. i < j \<and> j < length chunks \<longrightarrow> chunkId i < chunkId j)"
proof -
  have n: "length (encode_chunks CHUNK_SIZE (file_bytes f)) \<le> 1000000"
    by (rule length_encode_chunks_le [OF fits])
  have width: "\<forall>i. i < length (encode_chunks CHUNK_SIZE (file_bytes f)) \<longrightarrow> length (chunkId i) = 6"
    using n by (auto intro: length_chunkId)
  have keys: "\<forall>i j. i < j \<and> j < length (encode_chunks CHUNK_SIZE (file_bytes f)) \<longrightarrow>
             chunkId i < chunkId j"
  proof (intro allI impI)
    fix i j assume ij: "i < j \<and> j < length (encode_chunks CHUNK_SIZE (file_bytes f))"
    then have "i < j" and "j < 1000000" using n by simp_all
    then show "chunkId i < chunkId j"
      using chunkId_fixed_width by blast
  qed
  have idx: "map index (encode_chunks CHUNK_SIZE (file_bytes f))
               = [0..<length (encode_chunks CHUNK_SIZE (file_bytes f))]"
    by (rule map_index_encode_chunks)
  show ?thesis
    using put_requests [OF pdf, of b uid projectId st] keys width idx
    unfolding Let_def by blast
qed

theorem put_metadata_first_keys_ordered_witness:
  "includes_str (file_type large_pdf) ''pdf''
   \<and> length (base64_of (file_bytes large_pdf)) \<le> 1000000 * CHUNK_SIZE
   \<and> length (encode_chunks CHUNK_SIZE (file_bytes large_pdf)) = 2
   \<and> chunkId 0 = ''000000'' \<and> chunkId 1 = ''000001'' \<and> chunkId 0 < chunkId 1
   \<and> length (requests (handleAddPdf True (Some all_succeed) None ''p1'' (Some large_pdf)
                         initial_state)) = 4
   \<and> hd (requests (handleAddPdf True (Some all_succeed) None ''p1'' (Some large_pdf)
                     initial_state))
       = AddDoc [''projects'', ''p1'', ''pdfs'']
           (PdfDoc \<lparr>pdf_name = ''b.pdf'', ownerUid = None, numChunks = 2, pdf_size = 375001,
                   mimeType = ''application/pdf''\<rparr>)
   \<and> last (requests (handleAddPdf True (Some all_succeed) None ''p1'' (Some large_pdf)
                       initial_state))
       = GetDocs [''projects'', ''p1'', ''pdfs'', ''doc1'', ''chunks''] (Some ''index'')"
proof -
  have h: "includes_str (file_type large_pdf) ''pdf''"
    by (simp add: large_pdf_def startsWith_def)
  have L: "length (base64_of (file_bytes large_pdf)) = 500004"
    unfolding base64_of_def binary_of_def length_btoa by (simp add: large_pdf_def)
  have fits: "length (base64_of (file_bytes large_pdf)) \<le> 1000000 * CHUNK_SIZE"
    unfolding L by (simp add: CHUNK_SIZE_def)
  have n: "numChunks_of 500004 CHUNK_SIZE = 2"
    by (simp add: numChunks_of_div CHUNK_SIZE_def)
  have len: "length (encode_chunks CHUNK_SIZE (file_bytes large_pdf)) = 2"
    unfolding length_encode_chunks L n ..
  have all: "list_all (succeeds all_succeed) xs" for xs
    by (simp add: all_succeed_def list_all_iff)
  note t = put_metadata_first_keys_ordered [OF h fits, of all_succeed None "''p1''" initial_state,
      unfolded Let_def]
  have keys: "\<forall>i j. i < j \<and> j < 2 \<longrightarrow> chunkId i < chunkId j"
    using t unfolding len by blast
  have k: "chunkId 0 < chunkId 1" using keys by simp
  have r: "requests (handleAddPdf True (Some all_succeed) None ''p1'' (Some large_pdf) initial_state)
       = AddDoc (pdfs_path ''p1'')
           (PdfDoc \<lparr>pdf_name = file_name large_pdf, ownerUid = None, numChunks = 2,
                   pdf_size = length (file_bytes large_pdf), mimeType = file_type large_pdf\<rparr>)
         # map (\<lambda>c. SetDoc (chunk_path ''p1'' (newId all_succeed) (chunkId (index c))) (ChunkDoc c))
             (encode_chunks CHUNK_SIZE (file_bytes large_pdf))
         @ [GetDocs (chunks_path ''p1'' (newId all_succeed)) (Some ''index'')]"
    using t all unfolding L n by blast
  have rl: "length (requests (handleAddPdf True (Some all_succeed) None ''p1'' (Some large_pdf)
                         initial_state)) = 4"
    unfolding r by (simp add: len)
  have rh: "hd (requests (handleAddPdf True (Some all_succeed) None ''p1'' (Some large_pdf)
                     initial_state))
       = AddDoc [''projects'', ''p1'', ''pdfs'']
           (PdfDoc \<lparr>pdf_name = ''b.pdf'', ownerUid = None, numChunks = 2, pdf_size = 375001,
                   mimeType = ''application/pdf''\<rparr>)"
    unfolding r by (simp add: pdfs_path_def large_pdf_def)
  have rq: "last (requests (handleAddPdf True (Some all_succeed) None ''p1'' (Some large_pdf)
                       initial_state))
       = GetDocs [''projects'', ''p1'', ''pdfs'', ''doc1'', ''chunks''] (Some ''index'')"
    unfolding r by (simp add: chunks_path_def all_succeed_def)
  show ?thesis using h fits len chunkId_0 chunkId_1 k rl rh rq by blast
qed

text \<open>Six digits reach exactly this far: the key of an index of seven digits is not
  padded and sorts before the six-digit keys. Chunk 1,000,000 is where the base64
  text passes \<open>5 \<sqdot> 10\<^sup>1\<^sup>1\<close> characters.\<close>

lemma chunkId_seven_digits:
  "\<not> chunkId 999999 < chunkId 1000000 \<and> length (chunkId 1000000) = 7"
  unfolding chunkId_def toString_999999 toString_1000000 by (simp add: padStart_def)

section \<open>Properties of the delete\<close>

text \<open>
  Claim C6, as the source has it. Once the user has confirmed, the delete first lists the
  chunks. If the listing fails, the call fails and nothing is deleted. Otherwise it sends
  the delete of every listed chunk and of the annotation document, then the delete of the
  PDF document last, whatever the outcomes of the chunk and annotation deletes; and the
  call fails exactly when that last delete fails.
\<close>

theorem delete_settles_all:
  assumes sel: "selectedPdfId st = Some pdfId" and ne: "pdfId \<noteq> []"
  shows
   "let eff = handleDeleteSelectedPdf (Some b) projectId True st;
        q = GetDocs (chunks_path projectId pdfId) None;
        deletions = map (\<lambda>(i, d). DeleteDoc (chunk_path projectId pdfId i))
                      (list_docs (store b) (chunks_path projectId pdfId))
                    @ [DeleteDoc (annotations_path projectId pdfId)];
        final = DeleteDoc (pdf_path projectId pdfId)
    in (\<not> succeeds b q \<longrightarrow>
          requests eff = [q] \<and> caught eff = Some (message_of b q) \<and> db_after eff = Some b)
       \<and> (succeeds b q \<longrightarrow>
            requests eff = q # deletions @ [final]
            \<and> (caught eff = None \<longleftrightarrow> succeeds b final))"
  using sel ne by (simp add: handleDeleteSelectedPdf_def Let_def)

lemma list_docs_delete_store:
  "list_docs delete_store [''projects'', ''p1'', ''pdfs'', ''doc1'', ''chunks'']
     = [(''000000'', ChunkDoc \<lparr>index = 0, data = ''AQID''\<rparr>),
        (''000001'', ChunkDoc \<lparr>index = 1, data = ''BAUG''\<rparr>)]"
  by (simp add: list_docs_def delete_store_def)

theorem delete_settles_all_witness:
  "selectedPdfId doc1_selected = Some ''doc1'' \<and> ''doc1'' \<noteq> []
   \<and> \<not> succeeds chunk_delete_fails
         (DeleteDoc [''projects'', ''p1'', ''pdfs'', ''doc1'', ''chunks'', ''000000''])
   \<and> requests (handleDeleteSelectedPdf (Some chunk_delete_fails) ''p1'' True doc1_selected)
       = [GetDocs [''projects'', ''p1'', ''pdfs'', ''doc1'', ''chunks''] None,
          DeleteDoc [''projects'', ''p1'', ''pdfs'', ''doc1'', ''chunks'', ''000000''],
          DeleteDoc [''projects'', ''p1'', ''pdfs'', ''doc1'', ''chunks'', ''000001''],
          DeleteDoc [''projects'', ''p1'', ''pdfs'', ''doc1'', ''annotations'', ''default''],
          DeleteDoc [''projects'', ''p1'', ''pdfs'', ''doc1'']]
   \<and> caught (handleDeleteSelectedPdf (Some chunk_delete_fails) ''p1'' True doc1_selected) = None"
proof -
  have s: "selectedPdfId doc1_selected = Some ''doc1''" by (simp add: doc1_selected_def)
  have n: "''doc1'' \<noteq> []" by simp
  have f: "\<not> succeeds chunk_delete_fails
         (DeleteDoc [''projects'', ''p1'', ''pdfs'', ''doc1'', ''chunks'', ''000000''])"
    by (simp add: chunk_delete_fails_def)
  have st: "store chunk_delete_fails = delete_store" by (simp add: chunk_delete_fails_def)
  have q: "succeeds chunk_delete_fails (GetDocs p ob)" for p ob
    by (simp add: chunk_delete_fails_def)
  have fin: "succeeds chunk_delete_fails (DeleteDoc [''projects'', ''p1'', ''pdfs'', ''doc1''])"
    by (simp add: chunk_delete_fails_def)
  note t = delete_settles_all [OF s n, of chunk_delete_fails "''p1''"]
  have r: "requests (handleDeleteSelectedPdf (Some chunk_delete_fails) ''p1'' True doc1_selected)
       = [GetDocs [''projects'', ''p1'', ''pdfs'', ''doc1'', ''chunks''] None,
          DeleteDoc [''projects'', ''p1'', ''pdfs'', ''doc1'', ''chunks'', ''000000''],
          DeleteDoc [''projects'', ''p1'', ''pdfs'', ''doc1'', ''chunks'', ''000001''],
          DeleteDoc [''projects'', ''p1'', ''pdfs'', ''doc1'', ''annotations'', ''default''],
          DeleteDoc [''projects'', ''p1'', ''pdfs'', ''doc1'']]
       \<and> caught (handleDeleteSelectedPdf (Some chunk_delete_fails) ''p1'' True doc1_selected) = None"
    using t unfolding Let_def st chunks_path_def list_docs_delete_store
    by (simp add: q fin chunk_path_def annotations_path_def pdf_path_def)
  show ?thesis using s n f r by blast
qed

text \<open>A failing listing makes the call fail although the delete of the PDF document does
  not fail: it is never sent, and would succeed.\<close>

theorem delete_fails_on_listing_counterexample:
  "caught (handleDeleteSelectedPdf (Some listing_fails) ''p1'' True doc1_selected) \<noteq> None
   \<and> succeeds listing_fails (DeleteDoc (pdf_path ''p1'' ''doc1''))
   \<and> DeleteDoc (pdf_path ''p1'' ''doc1'')
        \<notin> set (requests (handleDeleteSelectedPdf (Some listing_fails) ''p1'' True doc1_selected))"
  by (simp add: handleDeleteSelectedPdf_def Let_def listing_fails_def doc1_selected_def)

section \<open>Properties of the annotation set\<close>

lemma appendReply_length: "length (appendReply reply hid prev) = length prev"
  by (simp add: appendReply_def)

lemma appendReply_nth:
  "n < length prev \<Longrightarrow>
     appendReply reply hid prev ! n =
       (if hl_id (prev ! n) \<noteq> hid then prev ! n
        else (prev ! n)\<lparr>meta := Some ((case meta (prev ! n) of None \<Rightarrow> default_meta | Some m \<Rightarrow> m)
                 \<lparr>replies := reply # replies (case meta (prev ! n) of None \<Rightarrow> default_meta | Some m \<Rightarrow> m)\<rparr>)\<rparr>)"
  by (simp add: appendReply_def Let_def)

text \<open>
  Claim C9. When the draft of highlight \<open>hid\<close> is not blank, the Reply button puts the new
  reply at the head of the reply list of every highlight with that id, in front of the
  replies it had, in their order; the severity and the category of that highlight stay
  as they were (a highlight without \<^verbatim>\<open>meta\<close> gets \<^verbatim>\<open>"medium"\<close>, \<^verbatim>\<open>"general"\<close> and
  the new reply alone), and so does every field outside \<^verbatim>\<open>meta\<close>. Every other
  highlight is unchanged, and the list keeps its length and order. The updated list is
  sent to the store in one \<^verbatim>\<open>setDoc\<close> when Firebase is configured and \<^verbatim>\<open>db\<close> is
  present, and no request is sent otherwise.
\<close>

theorem reply_prepended:
  assumes draft: "trim (case replyDrafts st hid of None \<Rightarrow> [] | Some d \<Rightarrow> d) \<noteq> []"
  shows
   "let reply = createReply env (trim (case replyDrafts st hid of None \<Rightarrow> [] | Some d \<Rightarrow> d));
        st' = fst (reply_onClick env isFirebaseConfigured db projectId pdfId hid st)
    in length (highlights st') = length (highlights st)
       \<and> (\<forall>n < length (highlights st).
             if hl_id (highlights st ! n) = hid then
               meta (highlights st' ! n)
                 = Some (case meta (highlights st ! n) of
                           None \<Rightarrow> \<lparr>meta_severity = ''medium'', meta_category = ''general'',
                                    replies = [reply]\<rparr>
                         | Some m \<Rightarrow> \<lparr>meta_severity = meta_severity m,
                                      meta_category = meta_category m,
                                      replies = reply # replies m\<rparr>)
               \<and> highlights st' ! n
                   = (highlights st ! n)\<lparr>meta := meta (highlights st' ! n)\<rparr>
             else highlights st' ! n = highlights st ! n)
       \<and> fst (snd (reply_onClick env isFirebaseConfigured db projectId pdfId hid st))
           = (if isFirebaseConfigured \<and> db \<noteq> None
              then [SetDoc (annotations_path projectId pdfId) (AnnotationsDoc (highlights st'))]
              else [])"
proof -
  let ?val = "trim (case replyDrafts st hid of None \<Rightarrow> [] | Some d \<Rightarrow> d)"
  let ?reply = "createReply env ?val"
  let ?upd = "appendReply ?reply hid (highlights st)"
  obtain ws db' where p: "persistHighlights isFirebaseConfigured db projectId pdfId ?upd = (ws, db')"
    by (cases "persistHighlights isFirebaseConfigured db projectId pdfId ?upd") auto
  have ws: "ws = (if isFirebaseConfigured \<and> db \<noteq> None
                  then [SetDoc (annotations_path projectId pdfId) (AnnotationsDoc ?upd)]
                  else [])"
    using p by (auto simp: persistHighlights_def Let_def split: option.splits if_splits)
  have r: "reply_onClick env isFirebaseConfigured db projectId pdfId hid st
             = (st\<lparr>highlights := ?upd, replyDrafts := (replyDrafts st)(hid := None)\<rparr>, ws, db')"
    using draft p by (simp add: reply_onClick_def Let_def)
  have hs: "highlights (fst (reply_onClick env isFirebaseConfigured db projectId pdfId hid st)) = ?upd"
    by (simp add: r)
  have each: "\<forall>n < length (highlights st).
             if hl_id (highlights st ! n) = hid then
               meta (?upd ! n)
                 = Some (case meta (highlights st ! n) of
                           None \<Rightarrow> \<lparr>meta_severity = ''medium'', meta_category = ''general'',
                                    replies = [?reply]\<rparr>
                         | Some m \<Rightarrow> \<lparr>meta_severity = meta_severity m,
                                      meta_category = meta_category m,
                                      replies = ?reply # replies m\<rparr>)
               \<and> ?upd ! n = (highlights st ! n)\<lparr>meta := meta (?upd ! n)\<rparr>
             else ?upd ! n = highlights st ! n"
    by (auto simp: appendReply_nth default_meta_def split: option.splits)
  show ?thesis
    unfolding Let_def hs using each ws by (simp add: appendReply_length r)
qed

theorem reply_prepended_witness:
  "trim (case replyDrafts editing ''h1'' of None \<Rightarrow> [] | Some d \<Rightarrow> d) \<noteq> []
   \<and> meta (highlights (fst (reply_onClick editor_env0 True (Some annotations_backend)
                               ''p1'' ''doc1'' ''h1'' editing)) ! 0)
       = Some \<lparr>meta_severity = ''high'', meta_category = ''safety'',
               replies = [\<lparr>reply_id = ''4821'', reply_text = ''agreed'', authorUid = Some ''u2'',
                           createdAt = 1700\<rparr>, reply0]\<rparr>
   \<and> highlights (fst (reply_onClick editor_env0 True (Some annotations_backend)
                         ''p1'' ''doc1'' ''h1'' editing)) ! 1
       = two_highlights ! 1
   \<and> fst (snd (reply_onClick editor_env0 True (Some annotations_backend)
                  ''p1'' ''doc1'' ''h1'' editing))
       = [SetDoc [''projects'', ''p1'', ''pdfs'', ''doc1'', ''annotations'', ''default'']
            (AnnotationsDoc
               (highlights (fst (reply_onClick editor_env0 True (Some annotations_backend)
                                   ''p1'' ''doc1'' ''h1'' editing))))]
   \<and> fst (snd (reply_onClick editor_env0 False (Some annotations_backend)
                  ''p1'' ''doc1'' ''h1'' editing)) = []"
proof -
  have t: "trim (case replyDrafts editing ''h1'' of None \<Rightarrow> [] | Some d \<Rightarrow> d) = ''agreed''"
    by (simp add: editing_def trim_def js_whitespace_def)
  have d: "trim (case replyDrafts editing ''h1'' of None \<Rightarrow> [] | Some d \<Rightarrow> d) \<noteq> []"
    unfolding t by simp
  note th = reply_prepended [OF d, of editor_env0 True "Some annotations_backend" "''p1''" "''doc1''",
      unfolded Let_def t]
  note off = reply_prepended [OF d, of editor_env0 False "Some annotations_backend" "''p1''" "''doc1''",
      unfolded Let_def t]
  note each = conjunct1 [OF conjunct2 [OF th], rule_format]
  let ?hs = "highlights (fst (reply_onClick editor_env0 True (Some annotations_backend)
                                ''p1'' ''doc1'' ''h1'' editing))"
  have l0: "0 < length (highlights editing)" and l1: "1 < length (highlights editing)"
    by (simp_all add: editing_def two_highlights_def)
  have e0: "hl_id (highlights editing ! 0) = ''h1''"
    by (simp add: editing_def two_highlights_def)
  have e1: "hl_id (highlights editing ! 1) \<noteq> ''h1''"
    by (simp add: editing_def two_highlights_def)
  have old: "meta (highlights editing ! 0)
               = Some \<lparr>meta_severity = ''high'', meta_category = ''safety'', replies = [reply0]\<rparr>"
    by (simp add: editing_def two_highlights_def)
  have cr: "createReply editor_env0 ''agreed'' = \<lparr>reply_id = ''4821'', reply_text = ''agreed'',
                                    authorUid = Some ''u2'', createdAt = 1700\<rparr>"
    by (simp add: createReply_def editor_env0_def slice_def)
  have n0: "meta (?hs ! 0)
              = Some \<lparr>meta_severity = ''high'', meta_category = ''safety'',
                      replies = [createReply editor_env0 ''agreed'', reply0]\<rparr>"
    using each [OF l0] e0 unfolding old by simp
  have n1: "?hs ! 1 = highlights editing ! 1"
    using each [OF l1] e1 by simp
  have h: "highlights editing = two_highlights" by (simp add: editing_def)
  have w: "fst (snd (reply_onClick editor_env0 True (Some annotations_backend)
                       ''p1'' ''doc1'' ''h1'' editing))
             = [SetDoc [''projects'', ''p1'', ''pdfs'', ''doc1'', ''annotations'', ''default'']
                  (AnnotationsDoc ?hs)]"
    using conjunct2 [OF conjunct2 [OF th]] by (simp add: annotations_path_def)
  have n: "fst (snd (reply_onClick editor_env0 False (Some annotations_backend)
                       ''p1'' ''doc1'' ''h1'' editing)) = []"
    using conjunct2 [OF conjunct2 [OF off]] by simp
  show ?thesis using d n0 n1 w n unfolding cr h by blast
qed

section \<open>Properties of the suggestion client\<close>

subsection \<open>Braces, parsing and defaults\<close>

lemma indexOf_first:
  "c \<in> set s \<Longrightarrow>
     \<exists>i. indexOf s c = Some i \<and> i < length s \<and> s ! i = c \<and> (\<forall>m<i. s ! m \<noteq> c)"
proof (induction s)
  case Nil
  then show ?case by simp
next
  case (Cons x xs)
  show ?case
  proof (cases "x = c")
    case True
    then show ?thesis by simp
  next
    case False
    then have "c \<in> set xs" using Cons.prems by simp
    then obtain i where i: "indexOf xs c = Some i" "i < length xs" "xs ! i = c" "\<forall>m<i. xs ! m \<noteq> c"
      using Cons.IH by blast
    have "\<forall>m<Suc i. (x # xs) ! m \<noteq> c"
    proof (intro allI impI)
      fix m assume "m < Suc i"
      then show "(x # xs) ! m \<noteq> c" using False i(4) by (cases m) simp_all
    qed
    then show ?thesis using False i by simp
  qed
qed

lemma lastIndexOf_last:
  assumes "c \<in> set s"
  shows "\<exists>j. lastIndexOf s c = Some j \<and> j < length s \<and> s ! j = c
             \<and> (\<forall>m. j < m \<and> m < length s \<longrightarrow> s ! m \<noteq> c)"
proof -
  have "c \<in> set (rev s)" using assms by simp
  then obtain i where i: "indexOf (rev s) c = Some i" "i < length (rev s)" "rev s ! i = c"
      "\<forall>m<i. rev s ! m \<noteq> c"
    using indexOf_first by blast
  let ?j = "length s - 1 - i"
  have il: "i < length s" using i(2) by simp
  have j: "lastIndexOf s c = Some ?j" by (simp add: lastIndexOf_def i(1))
  have jl: "?j < length s" using il by simp
  have "rev s ! i = s ! (length s - Suc i)" using il by (rule rev_nth)
  then have sj: "s ! ?j = c" using i(3) by simp
  have after: "\<forall>m. ?j < m \<and> m < length s \<longrightarrow> s ! m \<noteq> c"
  proof (intro allI impI)
    fix m assume m: "?j < m \<and> m < length s"
    let ?m' = "length s - Suc m"
    have lt: "?m' < i" using m il by linarith
    have ml: "?m' < length s" using m by linarith
    have "rev s ! ?m' = s ! (length s - Suc ?m')" using ml by (rule rev_nth)
    moreover have "length s - Suc ?m' = m" using m by simp
    ultimately have "rev s ! ?m' = s ! m" by simp
    then show "s ! m \<noteq> c" using i(4) lt by metis
  qed
  show ?thesis using j jl sj after by blast
qed

lemma indexOf_nonempty: "indexOf s c = Some i \<Longrightarrow> s \<noteq> []"
  by (cases s) simp_all

lemma suggestion_of_object:
  "suggestion_of (JObject kvs) excerpt =
     Inr \<lparr>suggestion_text = or_json (map_of kvs ''text'') (JString excerpt),
          severity = or_json (map_of kvs ''severity'') (JString ''medium''),
          category = or_json (map_of kvs ''category'') (JString ''general'')\<rparr>"
  by (simp add: suggestion_of_def)

lemma suggestComment_primary_object:
  assumes key: "truthy_str (resolve_apiKey env p)"
    and resp: "responses_create env (suggest_request env p) = Inr resp"
    and ext: "extractOutputText resp = Some content"
    and i: "indexOf content (CHR ''{'') = Some i"
    and j: "lastIndexOf content (CHR ''}'') = Some j"
    and parsed: "JSON_parse env (take (Suc j - i) (drop i content)) = Some (JObject kvs)"
  shows "suggestComment env p =
           (Some \<lparr>suggestion_text = or_json (map_of kvs ''text'') (JString (slice (highlightText p) 0 4000)),
                  severity = or_json (map_of kvs ''severity'') (JString ''medium''),
                  category = or_json (map_of kvs ''category'') (JString ''general'')\<rparr>,
            [ResponsesCreate (suggest_request env p)])"
proof -
  have ne: "content \<noteq> []" using i by (rule indexOf_nonempty)
  have raw: "slice content i (Suc j) = take (Suc j - i) (drop i content)"
    by (simp add: slice_take_drop)
  have ps: "parse_suggestion (JSON_parse env) (slice (highlightText p) 0 4000) content
              = Inr (Some \<lparr>suggestion_text = or_json (map_of kvs ''text'') (JString (slice (highlightText p) 0 4000)),
                  severity = or_json (map_of kvs ''severity'') (JString ''medium''),
                  category = or_json (map_of kvs ''category'') (JString ''general'')\<rparr>)"
    by (simp add: parse_suggestion_def i j raw parsed suggestion_of_object)
  have pr: "suggest_primary env p
              = Inr (Some \<lparr>suggestion_text = or_json (map_of kvs ''text'') (JString (slice (highlightText p) 0 4000)),
                  severity = or_json (map_of kvs ''severity'') (JString ''medium''),
                  category = or_json (map_of kvs ''category'') (JString ''general'')\<rparr>)"
    using ne by (simp add: suggest_primary_def resp ext ps)
  show ?thesis using key by (simp add: suggestComment_def pr)
qed



text \<open>
  Claim C8. When the text extracted from the primary response contains an opening and a
  closing brace, \<^verbatim>\<open>suggestComment\<close> gives \<^verbatim>\<open>JSON.parse\<close> the characters from the
  first \<^verbatim>\<open>{\<close> through the last \<^verbatim>\<open>}\<close>; and whatever object the parse returns, each
  of the three fields that is missing or falsy gets its default (the truncated excerpt,
  \<^verbatim>\<open>"medium"\<close>, \<^verbatim>\<open>"general"\<close>), so that the call returns a complete suggestion and
  sends no second request.
\<close>

theorem suggestion_fields_default:
  assumes key: "truthy_str (resolve_apiKey env p)"
    and resp: "responses_create env (suggest_request env p) = Inr resp"
    and ext: "extractOutputText resp = Some content"
    and lb: "CHR ''{'' \<in> set content" and rb: "CHR ''}'' \<in> set content"
  shows
   "\<exists>i j. indexOf content (CHR ''{'') = Some i \<and> lastIndexOf content (CHR ''}'') = Some j
      \<and> i < length content \<and> content ! i = CHR ''{'' \<and> (\<forall>m<i. content ! m \<noteq> CHR ''{'')
      \<and> j < length content \<and> content ! j = CHR ''}''
      \<and> (\<forall>m. j < m \<and> m < length content \<longrightarrow> content ! m \<noteq> CHR ''}'')
      \<and> (\<forall>kvs. JSON_parse env (take (Suc j - i) (drop i content)) = Some (JObject kvs) \<longrightarrow>
             suggestComment env p =
               (Some \<lparr>suggestion_text =
                        (case map_of kvs ''text'' of
                           None \<Rightarrow> JString (take 4000 (highlightText p))
                         | Some v \<Rightarrow> if truthy v then v else JString (take 4000 (highlightText p))),
                      severity =
                        (case map_of kvs ''severity'' of
                           None \<Rightarrow> JString ''medium''
                         | Some v \<Rightarrow> if truthy v then v else JString ''medium''),
                      category =
                        (case map_of kvs ''category'' of
                           None \<Rightarrow> JString ''general''
                         | Some v \<Rightarrow> if truthy v then v else JString ''general'')\<rparr>,
                [ResponsesCreate (suggest_request env p)]))"
proof -
  obtain i where i: "indexOf content (CHR ''{'') = Some i" "i < length content"
      "content ! i = CHR ''{''" "\<forall>m<i. content ! m \<noteq> CHR ''{''"
    using indexOf_first [OF lb] by blast
  obtain j where j: "lastIndexOf content (CHR ''}'') = Some j" "j < length content"
      "content ! j = CHR ''}''" "\<forall>m. j < m \<and> m < length content \<longrightarrow> content ! m \<noteq> CHR ''}''"
    using lastIndexOf_last [OF rb] by blast
  have ex: "slice (highlightText p) 0 4000 = take 4000 (highlightText p)"
    by (simp add: slice_take_drop)
  have "\<forall>kvs. JSON_parse env (take (Suc j - i) (drop i content)) = Some (JObject kvs) \<longrightarrow>
             suggestComment env p =
               (Some \<lparr>suggestion_text =
                        (case map_of kvs ''text'' of
                           None \<Rightarrow> JString (take 4000 (highlightText p))
                         | Some v \<Rightarrow> if truthy v then v else JString (take 4000 (highlightText p))),
                      severity =
                        (case map_of kvs ''severity'' of
                           None \<Rightarrow> JString ''medium''
                         | Some v \<Rightarrow> if truthy v then v else JString ''medium''),
                      category =
                        (case map_of kvs ''category'' of
                           None \<Rightarrow> JString ''general''
                         | Some v \<Rightarrow> if truthy v then v else JString ''general'')\<rparr>,
                [ResponsesCreate (suggest_request env p)])"
  proof (intro allI impI)
    fix kvs assume parsed: "JSON_parse env (take (Suc j - i) (drop i content)) = Some (JObject kvs)"
    show "suggestComment env p =
               (Some \<lparr>suggestion_text =
                        (case map_of kvs ''text'' of
                           None \<Rightarrow> JString (take 4000 (highlightText p))
                         | Some v \<Rightarrow> if truthy v then v else JString (take 4000 (highlightText p))),
                      severity =
                        (case map_of kvs ''severity'' of
                           None \<Rightarrow> JString ''medium''
                         | Some v \<Rightarrow> if truthy v then v else JString ''medium''),
                      category =
                        (case map_of kvs ''category'' of
                           None \<Rightarrow> JString ''general''
                         | Some v \<Rightarrow> if truthy v then v else JString ''general'')\<rparr>,
                [ResponsesCreate (suggest_request env p)])"
      unfolding suggestComment_primary_object [OF key resp ext i(1) j(1) parsed] ex or_json_def ..
  qed
  then show ?thesis using i j by blast
qed

lemma answer_partial_braces:
  "indexOf answer_partial (CHR ''{'') = Some 13" "lastIndexOf answer_partial (CHR ''}'') = Some 31"
  by (simp_all add: answer_partial_def lastIndexOf_def)

theorem suggestion_fields_default_witness:
  "truthy_str (resolve_apiKey env_partial beam_params)
   \<and> extractOutputText (joined_text answer_partial) = Some answer_partial
   \<and> CHR ''{'' \<in> set answer_partial \<and> CHR ''}'' \<in> set answer_partial
   \<and> suggestComment env_partial beam_params =
        (Some \<lparr>suggestion_text = JString ''Beam B1'', severity = JString ''high'',
               category = JString ''general''\<rparr>,
         [ResponsesCreate (suggest_request env_partial beam_params)])"
proof -
  have key: "truthy_str (resolve_apiKey env_partial beam_params)"
    by (simp add: resolve_apiKey_def or_str_def truthy_str_def env_partial_def beam_params_def)
  have resp: "responses_create env_partial (suggest_request env_partial beam_params)
                = Inr (joined_text answer_partial)"
    by (simp add: env_partial_def)
  have ne: "answer_partial \<noteq> []" by (simp add: answer_partial_def)
  have ext: "extractOutputText (joined_text answer_partial) = Some answer_partial"
    using ne by (simp add: extractOutputText_def joined_text_def nonempty_def)
  have lb: "CHR ''{'' \<in> set answer_partial" and rb: "CHR ''}'' \<in> set answer_partial"
    by (simp_all add: answer_partial_def)
  obtain i j where ij: "indexOf answer_partial (CHR ''{'') = Some i"
      "lastIndexOf answer_partial (CHR ''}'') = Some j"
    and all: "\<forall>kvs. JSON_parse env_partial (take (Suc j - i) (drop i answer_partial)) = Some (JObject kvs) \<longrightarrow>
             suggestComment env_partial beam_params =
               (Some \<lparr>suggestion_text =
                        (case map_of kvs ''text'' of
                           None \<Rightarrow> JString (take 4000 (highlightText beam_params))
                         | Some v \<Rightarrow> if truthy v then v else JString (take 4000 (highlightText beam_params))),
                      severity =
                        (case map_of kvs ''severity'' of
                           None \<Rightarrow> JString ''medium''
                         | Some v \<Rightarrow> if truthy v then v else JString ''medium''),
                      category =
                        (case map_of kvs ''category'' of
                           None \<Rightarrow> JString ''general''
                         | Some v \<Rightarrow> if truthy v then v else JString ''general'')\<rparr>,
                [ResponsesCreate (suggest_request env_partial beam_params)])"
    using suggestion_fields_default [OF key resp ext lb rb] by blast
  have i: "i = 13" and j: "j = 31" using ij answer_partial_braces by simp_all
  have raw: "take (Suc 31 - 13) (drop 13 answer_partial) = take 19 (drop 13 answer_partial)"
    by simp
  have parsed: "JSON_parse env_partial (take (Suc j - i) (drop i answer_partial))
                  = Some (JObject [(''severity'', JString ''high'')])"
    unfolding i j raw by (simp add: env_partial_def answer_partial_def parse_partial_def)
  have r: "suggestComment env_partial beam_params =
        (Some \<lparr>suggestion_text = JString ''Beam B1'', severity = JString ''high'',
               category = JString ''general''\<rparr>,
         [ResponsesCreate (suggest_request env_partial beam_params)])"
    using all [rule_format, OF parsed] by (simp add: beam_params_def)
  show ?thesis using key ext lb rb r by blast
qed

subsection \<open>Severity and category are not validated\<close>


lemma answer_offlist_braces:
  "indexOf answer_offlist (CHR ''{'') = Some 0"
  "lastIndexOf answer_offlist (CHR ''}'') = Some 62"
  "indexOf answer_focus_offlist (CHR ''{'') = Some 0"
  "lastIndexOf answer_focus_offlist (CHR ''}'') = Some 68"
  by (simp_all add: answer_offlist_def answer_focus_offlist_def lastIndexOf_def)


subsection \<open>No credential, no request\<close>

text \<open>
  Claim C7. When no credential is configured (the parameter \<^verbatim>\<open>apiKey\<close> and the
  environment variable are both absent or empty), each of \<^verbatim>\<open>suggestComment\<close>,
  \<^verbatim>\<open>askExpert\<close> and \<^verbatim>\<open>suggestNextFocus\<close> returns \<^verbatim>\<open>null\<close> and sends no request,
  neither to the provider nor to the web search.
\<close>

theorem no_credential_no_request:
  assumes env: "\<not> truthy_str (VITE_OPENAI_API_KEY env)"
    and sp: "\<not> truthy_str (apiKey sp)"
    and ap: "\<not> truthy_str (apiKey ap)"
    and fp: "\<not> truthy_str (apiKey fp)"
  shows "suggestComment env sp = (None, [])
         \<and> askExpert env ap = (None, [])
         \<and> suggestNextFocus env fp = (None, [])"
  using assms
  by (simp add: suggestComment_def askExpert_def suggestNextFocus_def resolve_apiKey_def
        or_str_def)

theorem no_credential_no_request_witness:
  "\<not> truthy_str (VITE_OPENAI_API_KEY env_no_key)
   \<and> \<not> truthy_str (apiKey beam_params)
   \<and> \<not> truthy_str (apiKey question_params)
   \<and> \<not> truthy_str (apiKey focus_params)
   \<and> suggestComment env_no_key beam_params = (None, [])
   \<and> askExpert env_no_key question_params = (None, [])
   \<and> suggestNextFocus env_no_key focus_params = (None, [])"
proof -
  have e: "\<not> truthy_str (VITE_OPENAI_API_KEY env_no_key)"
    by (simp add: env_no_key_def truthy_str_def)
  have s: "\<not> truthy_str (apiKey beam_params)" by (simp add: beam_params_def truthy_str_def)
  have a: "\<not> truthy_str (apiKey question_params)"
    by (simp add: question_params_def truthy_str_def)
  have f: "\<not> truthy_str (apiKey focus_params)" by (simp add: focus_params_def truthy_str_def)
  show ?thesis using e s a f no_credential_no_request [OF e s a f] by blast
qed

subsection \<open>Cancellation\<close>

lemma suggest_prompt_abortSignal:
  "suggest_prompt (p\<lparr>abortSignal := a\<rparr>) = suggest_prompt p"
  unfolding suggest_prompt_def by simp

lemma suggest_request_abortSignal:
  "suggest_request env (p\<lparr>abortSignal := a\<rparr>) = suggest_request env p"
  unfolding suggest_request_def suggest_prompt_abortSignal resolve_apiKey_def resolve_model_def
  by simp

lemma suggest_fallback_request_abortSignal:
  "suggest_fallback_request env (p\<lparr>abortSignal := a\<rparr>) = suggest_fallback_request env p"
  unfolding suggest_fallback_request_def suggest_prompt_abortSignal resolve_apiKey_def
    resolve_model_def
  by simp

lemma suggestComment_ignores_abortSignal:
  "suggestComment env (p\<lparr>abortSignal := a\<rparr>) = suggestComment env p"
proof -
  have h: "highlightText (p\<lparr>abortSignal := a\<rparr>) = highlightText p" by simp
  have k: "apiKey (p\<lparr>abortSignal := a\<rparr>) = apiKey p" by simp
  show ?thesis
    unfolding suggestComment_def suggest_primary_def suggest_fallback_def
      suggest_request_abortSignal suggest_fallback_request_abortSignal resolve_apiKey_def h k ..
qed

text \<open>
  Claim C3 asks that a call cancelled before its primary request completes ends in a
  cancellation outcome and never sends the fallback request. The source declares the
  parameter \<^verbatim>\<open>abortSignal\<close>, and the editor aborts the previous controller and passes a
  fresh signal with every call, but \<^verbatim>\<open>suggestComment\<close> never reads it (lemma
  \<open>suggestComment_ignores_abortSignal\<close>). Evaluated on a call whose signal is aborted
  and whose primary request is rejected: the fallback request is sent and its parsed
  answer is returned.
\<close>

theorem cancelled_call_enters_fallback:
  "abortSignal cancelled_params = Some \<lparr>aborted = True\<rparr>
   \<and> responses_create env_primary_down (suggest_request env_primary_down cancelled_params)
       = Inl (ApiError ''Connection error.'')
   \<and> suggestComment env_primary_down cancelled_params
       = (Some \<lparr>suggestion_text = JString ''Check the beam'', severity = JString ''urgent'',
                category = JString ''fire''\<rparr>,
          [ResponsesCreate (suggest_request env_primary_down cancelled_params),
           ChatCompletionsCreate (suggest_fallback_request env_primary_down cancelled_params)])"
proof -
  have a: "abortSignal cancelled_params = Some \<lparr>aborted = True\<rparr>"
    by (simp add: cancelled_params_def)
  have r: "responses_create env_primary_down (suggest_request env_primary_down cancelled_params)
       = Inl (ApiError ''Connection error.'')"
    by (simp add: env_primary_down_def)
  have key: "truthy_str (resolve_apiKey env_primary_down cancelled_params)"
    by (simp add: resolve_apiKey_def or_str_def truthy_str_def env_primary_down_def
          cancelled_params_def beam_params_def)
  have pr: "suggest_primary env_primary_down cancelled_params = Inl (ApiError ''Connection error.'')"
    by (simp add: suggest_primary_def r)
  have chat: "chat_create env_primary_down
                 (suggest_fallback_request env_primary_down cancelled_params)
              = Inr \<lparr>chat_choices =
                      Some [\<lparr>message = Some \<lparr>msg_content = Some answer_offlist\<rparr>\<rparr>]\<rparr>"
    by (simp add: env_primary_down_def)
  have ne: "answer_offlist \<noteq> []" by (simp add: answer_offlist_def)
  have ls: "length answer_offlist = 63" by (simp add: answer_offlist_def)
  have raw: "slice answer_offlist 0 63 = answer_offlist"
    by (simp add: slice_take_drop ls)
  have ps: "parse_suggestion (JSON_parse env_primary_down)
              (slice (highlightText cancelled_params) 0 4000) answer_offlist
            = Inr (Some \<lparr>suggestion_text = JString ''Check the beam'',
                          severity = JString ''urgent'', category = JString ''fire''\<rparr>)"
    by (simp add: parse_suggestion_def answer_offlist_braces(1,2) raw env_primary_down_def
          parse_offlist_def suggestion_of_object or_json_def)
  have fb: "suggest_fallback env_primary_down cancelled_params
            = Inr (Some \<lparr>suggestion_text = JString ''Check the beam'',
                          severity = JString ''urgent'', category = JString ''fire''\<rparr>)"
    using ne by (simp add: suggest_fallback_def chat first_choice_content_def ps)
  have s: "suggestComment env_primary_down cancelled_params
       = (Some \<lparr>suggestion_text = JString ''Check the beam'', severity = JString ''urgent'',
                category = JString ''fire''\<rparr>,
          [ResponsesCreate (suggest_request env_primary_down cancelled_params),
           ChatCompletionsCreate (suggest_fallback_request env_primary_down cancelled_params)])"
    using key by (simp add: suggestComment_def pr fb)
  show ?thesis using a r s by blast
qed

end
